theory Spec2Isabelle
  imports Main "HOL-Library.Sublist"
begin

section \<open>Python values and built-ins used by main.py\<close>

text \<open>
  Text is a list of Unicode code points below 256, one \<^typ>\<open>char\<close> each (Latin-1); text with
  other code points has no counterpart here.

  Values that \<^verbatim>\<open>json.loads\<close> / \<^verbatim>\<open>response.json()\<close> produce and that the tools put into
  request bodies. A Python \<^verbatim>\<open>dict\<close> is an association list in insertion order (its keys
  are distinct). A \<^verbatim>\<open>float\<close> is carried by the text Python prints for it, since main.py
  never computes with one.
\<close>

datatype json =
    JNull
  | JBool bool
  | JInt int
  | JFloat string
  | JStr string
  | JList "json list"
  | JObj "(string \<times> json) list"

text \<open>\<^verbatim>\<open>str(n)\<close> for an integer: decimal digits, a minus sign for negatives.\<close>

fun str_nat :: "nat \<Rightarrow> string" where
  "str_nat n =
     (if n < 10 then [''0123456789'' ! n]
      else str_nat (n div 10) @ [''0123456789'' ! (n mod 10)])"

declare str_nat.simps [simp del]

definition str_int :: "int \<Rightarrow> string" where
  "str_int i = (if i < 0 then ''-'' @ str_nat (nat (- i)) else str_nat (nat i))"

text \<open>\<^verbatim>\<open>sep.join(xs)\<close>.\<close>

fun join :: "string \<Rightarrow> string list \<Rightarrow> string" where
  "join sep [] = []"
| "join sep [x] = x"
| "join sep (x # y # ys) = x @ sep @ join sep (y # ys)"

text \<open>
  \<^verbatim>\<open>repr\<close> of a \<^verbatim>\<open>str\<close> (CPython's unicode_repr): single quotes unless the text holds a
  single quote and no double quote; the quote and the backslash are escaped, tab, newline
  and carriage return are written \<^verbatim>\<open>\t \n \r\<close>, and every other code point that is not
  printable is written \<^verbatim>\<open>\xNN\<close>. Below 256 the code points that are not printable are
  the controls 0x00 to 0x1F and 0x7F to 0x9F, the no-break space 0xA0 and the soft hyphen
  0xAD.
\<close>

definition printable :: "char \<Rightarrow> bool" where
  "printable c =
     (let n = (of_char c :: nat)
      in 32 \<le> n \<and> \<not> (127 \<le> n \<and> n \<le> 160) \<and> n \<noteq> 173)"

definition repr_char :: "char \<Rightarrow> char \<Rightarrow> string" where
  "repr_char q c =
     (if c = q \<or> c = CHR 0x5C then [CHR 0x5C, c]
      else if c = CHR 0x09 then [CHR 0x5C, CHR ''t'']
      else if c = CHR 0x0A then [CHR 0x5C, CHR ''n'']
      else if c = CHR 0x0D then [CHR 0x5C, CHR ''r'']
      else if \<not> printable c then
        [CHR 0x5C, CHR ''x'',
         ''0123456789abcdef'' ! ((of_char c :: nat) div 16),
         ''0123456789abcdef'' ! ((of_char c :: nat) mod 16)]
      else [c])"

definition repr_str :: "string \<Rightarrow> string" where
  "repr_str s =
     (let q = (if CHR 0x27 \<in> set s \<and> CHR 0x22 \<notin> set s then CHR 0x22 else CHR 0x27)
      in q # concat (map (repr_char q) s) @ [q])"

text \<open>\<^verbatim>\<open>repr(v)\<close> for a parsed JSON value, and \<^verbatim>\<open>str(v)\<close> (what an f-string prints).\<close>

fun py_repr :: "json \<Rightarrow> string" where
  "py_repr JNull = ''None''"
| "py_repr (JBool b) = (if b then ''True'' else ''False'')"
| "py_repr (JInt i) = str_int i"
| "py_repr (JFloat s) = s"
| "py_repr (JStr s) = repr_str s"
| "py_repr (JList xs) = ''['' @ join '', '' (map py_repr xs) @ '']''"
| "py_repr (JObj kvs) =
     ''{'' @ join '', '' (map (\<lambda>(k, v). repr_str k @ '': '' @ py_repr v) kvs) @ ''}''"

definition py_str :: "json \<Rightarrow> string" where
  "py_str v = (case v of JStr s \<Rightarrow> s | _ \<Rightarrow> py_repr v)"

text \<open>
  \<^verbatim>\<open>d[k] = v\<close> on a dict: an existing key keeps its place and takes the new value, a new
  key goes to the end. \<^verbatim>\<open>d.update(e)\<close> stores the items of \<^verbatim>\<open>e\<close> in order.
\<close>

fun dict_set :: "('k \<times> 'v) list \<Rightarrow> 'k \<Rightarrow> 'v \<Rightarrow> ('k \<times> 'v) list" where
  "dict_set [] k v = [(k, v)]"
| "dict_set ((k', v') # d) k v =
     (if k' = k then (k', v) # d else (k', v') # dict_set d k v)"

definition dict_update :: "('k \<times> 'v) list \<Rightarrow> ('k \<times> 'v) list \<Rightarrow> ('k \<times> 'v) list" where
  "dict_update d e = fold (\<lambda>(k, v) acc. dict_set acc k v) e d"

text \<open>Truthiness of the optional tool parameters (\<^verbatim>\<open>if x:\<close>).\<close>

definition truthy_str :: "string option \<Rightarrow> bool" where
  "truthy_str x = (case x of None \<Rightarrow> False | Some s \<Rightarrow> s \<noteq> [])"

definition truthy_int :: "int option \<Rightarrow> bool" where
  "truthy_int x = (case x of None \<Rightarrow> False | Some n \<Rightarrow> n \<noteq> 0)"

definition truthy_list :: "'a list option \<Rightarrow> bool" where
  "truthy_list x = (case x of None \<Rightarrow> False | Some xs \<Rightarrow> xs \<noteq> [])"

section \<open>Query parameters\<close>

text \<open>
  The values the tools store in a \<^verbatim>\<open>params\<close> dict, and what the HTTP library makes of the
  dict (requests' \<^verbatim>\<open>_encode_params\<close>, then \<^verbatim>\<open>urlencode(..., doseq=True)\<close>): the items in
  dict order, a list value as one pair per element under the same key, a scalar as one
  pair holding its \<^verbatim>\<open>str\<close>. Percent-escaping of the pairs is left out.
\<close>

datatype param = PStr string | PInt int | PBool bool | PList "string list"

fun param_values :: "param \<Rightarrow> string list" where
  "param_values (PStr s) = [s]"
| "param_values (PInt i) = [str_int i]"
| "param_values (PBool b) = [if b then ''True'' else ''False'']"
| "param_values (PList xs) = xs"

definition encode_params :: "(string \<times> param) list \<Rightarrow> (string \<times> string) list" where
  "encode_params ps = concat (map (\<lambda>(k, v). map (Pair k) (param_values v)) ps)"

section \<open>The request encoders of the tools\<close>

text \<open>The key \<^verbatim>\<open>f"sort[{i}][{key}]"\<close>.\<close>

definition sort_key :: "nat \<Rightarrow> string \<Rightarrow> string" where
  "sort_key i key = ''sort['' @ str_nat i @ '']['' @ key @ '']''"

text \<open>
  \<^verbatim>\<open>list_records\<close>, lines 209 to 231: the \<^verbatim>\<open>params\<close> dict it passes on. Each sort object is
  a dict from strings to strings.
\<close>

definition list_records_params ::
  "string list option \<Rightarrow> string option \<Rightarrow> int option \<Rightarrow> int option \<Rightarrow>
   (string \<times> string) list list option \<Rightarrow> string option \<Rightarrow> string option \<Rightarrow>
   string option \<Rightarrow> string option \<Rightarrow> (string \<times> param) list" where
  "list_records_params fields filter_by_formula max_records page_size sort_p view cell_format
       time_zone user_locale =
     (let params = [];
          params = (if truthy_list fields
                    then fold (\<lambda>field p. dict_set p ''fields[]'' (PStr field)) (the fields) params
                    else params);
          params = (if truthy_str filter_by_formula
                    then dict_set params ''filterByFormula'' (PStr (the filter_by_formula))
                    else params);
          params = (if truthy_int max_records
                    then dict_set params ''maxRecords'' (PInt (the max_records))
                    else params);
          params = (if truthy_int page_size
                    then dict_set params ''pageSize'' (PInt (the page_size))
                    else params);
          params = (if truthy_str view
                    then dict_set params ''view'' (PStr (the view))
                    else params);
          params = (if truthy_str cell_format
                    then dict_set params ''cellFormat'' (PStr (the cell_format))
                    else params);
          params = (if truthy_str time_zone
                    then dict_set params ''timeZone'' (PStr (the time_zone))
                    else params);
          params = (if truthy_str user_locale
                    then dict_set params ''userLocale'' (PStr (the user_locale))
                    else params);
          params = (if truthy_list sort_p
                    then fold (\<lambda>(i, sort_obj) p.
                                 fold (\<lambda>(key, val) p'. dict_set p' (sort_key i key) (PStr val))
                                      sort_obj p)
                              (enumerate 0 (the sort_p)) params
                    else params)
      in params)"

text \<open>\<^verbatim>\<open>get_users_by_id_or_email\<close>, lines 777 to 786.\<close>

definition get_users_by_id_or_email_params ::
  "string list option \<Rightarrow> string list option \<Rightarrow> string list option \<Rightarrow> (string \<times> param) list" where
  "get_users_by_id_or_email_params user_ids emails include =
     (let params = [];
          params = (if truthy_list user_ids
                    then fold (\<lambda>user_id p. dict_set p ''id[]'' (PStr user_id)) (the user_ids) params
                    else params);
          params = (if truthy_list emails
                    then fold (\<lambda>email p. dict_set p ''email[]'' (PStr email)) (the emails) params
                    else params);
          params = (if truthy_list include
                    then dict_set params ''include'' (PList (the include))
                    else params)
      in params)"

text \<open>\<^verbatim>\<open>delete_multiple_records\<close>, line 348: the list itself is the value.\<close>

definition delete_multiple_records_params :: "string list \<Rightarrow> (string \<times> param) list" where
  "delete_multiple_records_params record_ids = [(''records[]'', PList record_ids)]"

text \<open>\<^verbatim>\<open>get_record\<close>, lines 246 to 251.\<close>

definition get_record_params :: "string option \<Rightarrow> bool option \<Rightarrow> (string \<times> param) list" where
  "get_record_params cell_format return_fields_by_field_id =
     (let params = [];
          params = (if truthy_str cell_format
                    then dict_set params ''cellFormat'' (PStr (the cell_format))
                    else params);
          params = (if return_fields_by_field_id \<noteq> None
                    then dict_set params ''returnFieldsByFieldId''
                           (PBool (the return_fields_by_field_id))
                    else params)
      in params)"

text \<open>\<^verbatim>\<open>create_records\<close>, lines 267 to 277: the JSON body.\<close>

definition create_records_data ::
  "json list option \<Rightarrow> (string \<times> json) list option \<Rightarrow> bool option \<Rightarrow> bool option \<Rightarrow>
   (string \<times> json) list" where
  "create_records_data records fields typecast return_fields_by_field_id =
     (let data = [];
          data = (if truthy_list records then dict_set data ''records'' (JList (the records))
                  else if truthy_list fields then dict_set data ''fields'' (JObj (the fields))
                  else data);
          data = (if typecast \<noteq> None
                  then dict_set data ''typecast'' (JBool (the typecast))
                  else data);
          data = (if return_fields_by_field_id \<noteq> None
                  then dict_set data ''returnFieldsByFieldId''
                         (JBool (the return_fields_by_field_id))
                  else data)
      in data)"

text \<open>\<^verbatim>\<open>update_record\<close>, lines 293 to 298.\<close>

definition update_record_data ::
  "(string \<times> json) list \<Rightarrow> bool option \<Rightarrow> bool option \<Rightarrow> (string \<times> json) list" where
  "update_record_data fields typecast return_fields_by_field_id =
     (let data = [(''fields'', JObj fields)];
          data = (if typecast \<noteq> None
                  then dict_set data ''typecast'' (JBool (the typecast))
                  else data);
          data = (if return_fields_by_field_id \<noteq> None
                  then dict_set data ''returnFieldsByFieldId''
                         (JBool (the return_fields_by_field_id))
                  else data)
      in data)"

text \<open>\<^verbatim>\<open>update_multiple_records\<close>, lines 315 to 324.\<close>

definition update_multiple_records_data ::
  "json list \<Rightarrow> bool option \<Rightarrow> bool option \<Rightarrow> bool option \<Rightarrow> string list option \<Rightarrow>
   (string \<times> json) list" where
  "update_multiple_records_data records typecast return_fields_by_field_id perform_upsert
       fields_to_merge_on =
     (let data = [(''records'', JList records)];
          data = (if typecast \<noteq> None
                  then dict_set data ''typecast'' (JBool (the typecast))
                  else data);
          data = (if return_fields_by_field_id \<noteq> None
                  then dict_set data ''returnFieldsByFieldId''
                         (JBool (the return_fields_by_field_id))
                  else data);
          data = (if perform_upsert \<noteq> None
                  then dict_set data ''performUpsert'' (JBool (the perform_upsert))
                  else data);
          data = (if truthy_list fields_to_merge_on
                  then dict_set data ''fieldsToMergeOn'' (JList (map JStr (the fields_to_merge_on)))
                  else data)
      in data)"

text \<open>\<^verbatim>\<open>remove_user_from_enterprise\<close>, lines 801 to 808.\<close>

definition remove_user_from_enterprise_data ::
  "string option \<Rightarrow> bool option \<Rightarrow> bool option \<Rightarrow> (string \<times> json) list" where
  "remove_user_from_enterprise_data replacement_owner_id remove_from_descendants is_dry_run =
     (let data = [];
          data = (if truthy_str replacement_owner_id
                  then dict_set data ''replacementOwnerId'' (JStr (the replacement_owner_id))
                  else data);
          data = (if remove_from_descendants \<noteq> None
                  then dict_set data ''removeFromDescendants'' (JBool (the remove_from_descendants))
                  else data);
          data = (if is_dry_run \<noteq> None
                  then dict_set data ''isDryRun'' (JBool (the is_dry_run))
                  else data)
      in data)"

section \<open>Exceptions\<close>

text \<open>
  The exceptions that reach an \<^verbatim>\<open>except\<close> clause of main.py, each with the text \<^verbatim>\<open>str(e)\<close>
  gives. Messages of the interpreter's own errors are CPython 3.12's.
\<close>

datatype exn =
    ValueError string
  | TypeError string
  | KeyError string
  | AttributeError string
  | OtherError string

fun str_exn :: "exn \<Rightarrow> string" where
  "str_exn (ValueError m) = m"
| "str_exn (TypeError m) = m"
| "str_exn (KeyError k) = repr_str k"
| "str_exn (AttributeError m) = m"
| "str_exn (OtherError m) = m"

text \<open>Sequencing inside a \<^verbatim>\<open>try\<close> block: the first exception ends the block.\<close>

definition bind_exn :: "exn + 'a \<Rightarrow> ('a \<Rightarrow> exn + 'b) \<Rightarrow> exn + 'b" where
  "bind_exn m f = (case m of Inl e \<Rightarrow> Inl e | Inr x \<Rightarrow> f x)"

definition quoted :: "string \<Rightarrow> string" where
  "quoted s = CHR 0x27 # s @ [CHR 0x27]"

fun type_name :: "json \<Rightarrow> string" where
  "type_name JNull = ''NoneType''"
| "type_name (JBool b) = ''bool''"
| "type_name (JInt i) = ''int''"
| "type_name (JFloat s) = ''float''"
| "type_name (JStr s) = ''str''"
| "type_name (JList xs) = ''list''"
| "type_name (JObj d) = ''dict''"

text \<open>\<^verbatim>\<open>k in x\<close> for a string \<^verbatim>\<open>k\<close>: a key of a dict, an element of a list, a substring of a
  string; a TypeError on anything else.\<close>

fun py_contains :: "string \<Rightarrow> json \<Rightarrow> exn + bool" where
  "py_contains k (JObj d) = Inr (k \<in> set (map fst d))"
| "py_contains k (JList xs) = Inr (JStr k \<in> set xs)"
| "py_contains k (JStr s) = Inr (sublist k s)"
| "py_contains k v =
     Inl (TypeError (''argument of type '' @ quoted (type_name v) @ '' is not iterable''))"

text \<open>\<^verbatim>\<open>x[k]\<close> for a string \<^verbatim>\<open>k\<close>.\<close>

fun py_getitem :: "json \<Rightarrow> string \<Rightarrow> exn + json" where
  "py_getitem (JObj d) k = (case map_of d k of None \<Rightarrow> Inl (KeyError k) | Some v \<Rightarrow> Inr v)"
| "py_getitem (JList xs) k = Inl (TypeError ''list indices must be integers or slices, not str'')"
| "py_getitem (JStr s) k =
     Inl (TypeError (''string indices must be integers, not '' @ quoted ''str''))"
| "py_getitem v k = Inl (TypeError (quoted (type_name v) @ '' object is not subscriptable''))"

text \<open>\<^verbatim>\<open>x.get(k, default)\<close>: only a dict has the method.\<close>

fun py_get :: "json \<Rightarrow> string \<Rightarrow> json \<Rightarrow> exn + json" where
  "py_get (JObj d) k dflt = Inr (case map_of d k of None \<Rightarrow> dflt | Some v \<Rightarrow> v)"
| "py_get v k dflt =
     Inl (AttributeError (quoted (type_name v) @ '' object has no attribute '' @ quoted ''get''))"

section \<open>HTTP and the process environment\<close>

record http_request =
  req_method :: string
  req_url :: string
  req_headers :: "(string \<times> string) list"
  req_params :: "(string \<times> param) list option"
  req_json :: "json option"

text \<open>
  What \<^verbatim>\<open>response.json()\<close> does: it returns the parsed value, raises a JSONDecodeError when
  the body is not JSON, or raises something else that the parser lets through (a plain
  ValueError for an integer literal beyond the interpreter's digit limit, a RecursionError
  for nesting beyond the recursion limit); each exception with its \<^verbatim>\<open>str\<close>.
\<close>

datatype json_outcome =
    Parsed json
  | JSONDecodeError string
  | OtherJsonError string

text \<open>
  What main.py reads of a \<^verbatim>\<open>requests.Response\<close>: \<^verbatim>\<open>status_code\<close>, \<^verbatim>\<open>reason\<close>, \<^verbatim>\<open>url\<close>,
  \<^verbatim>\<open>content\<close>, \<^verbatim>\<open>text\<close> and the outcome of \<^verbatim>\<open>json()\<close>.
\<close>

record response =
  status_code :: int
  reason :: string
  resp_url :: string
  content :: string
  resp_text :: string
  resp_json :: json_outcome

text \<open>
  \<^verbatim>\<open>requests.request\<close> returns a response, raises a RequestException (connection error,
  timeout, ...) or, rarely, another exception; each exception with its \<^verbatim>\<open>str\<close>.
\<close>

datatype http_outcome =
    Response response
  | RequestException string
  | OtherException string

text \<open>
  \<^verbatim>\<open>response.raise_for_status()\<close>: an HTTPError (a RequestException) for a status from 400
  to 599, with this message; nothing for any other status.
\<close>

definition http_error_msg :: "response \<Rightarrow> string option" where
  "http_error_msg r =
     (if 400 \<le> status_code r \<and> status_code r < 500
      then Some (str_int (status_code r) @ '' Client Error: '' @ reason r @ '' for url: '' @ resp_url r)
      else if 500 \<le> status_code r \<and> status_code r < 600
      then Some (str_int (status_code r) @ '' Server Error: '' @ reason r @ '' for url: '' @ resp_url r)
      else None)"

text \<open>
  The state the functions run in: \<^verbatim>\<open>os.environ\<close>; the network, which answers the n-th HTTP
  call of the process; the calls sent so far; and how often \<^verbatim>\<open>get_connection_credentials\<close>
  has been entered. main.py keeps no other state between calls.
\<close>

record world =
  environ :: "string \<Rightarrow> string option"
  network :: "nat \<Rightarrow> http_request \<Rightarrow> http_outcome"
  sent :: "http_request list"
  broker_calls :: nat

definition http_send :: "world \<Rightarrow> http_request \<Rightarrow> http_outcome \<times> world" where
  "http_send w req = (network w (length (sent w)) req, w\<lparr>sent := sent w @ [req]\<rparr>)"

section \<open>The credential broker client and the token provider\<close>

text \<open>
  \<^verbatim>\<open>get_connection_credentials\<close>, lines 24 to 56. A JSONDecodeError of \<^verbatim>\<open>response.json()\<close>
  is a RequestException in requests 2.27 and later, so the first \<^verbatim>\<open>except\<close> clause takes it.
  Any other exception of \<^verbatim>\<open>requests.get\<close> or \<^verbatim>\<open>response.json()\<close> passes both clauses and
  leaves the function as it is.
\<close>

definition get_connection_credentials :: "world \<Rightarrow> (exn + json) \<times> world" where
  "get_connection_credentials w0 =
     (let w = w0\<lparr>broker_calls := Suc (broker_calls w0)\<rparr>;
          connection_id = environ w ''NANGO_CONNECTION_ID'';
          integration_id = environ w ''NANGO_INTEGRATION_ID'';
          base_url = environ w ''NANGO_BASE_URL'';
          secret_key = environ w ''NANGO_SECRET_KEY''
      in if \<not> (truthy_str connection_id \<and> truthy_str integration_id
                \<and> truthy_str base_url \<and> truthy_str secret_key)
         then
           (let missing_vars =
                  map fst (filter (\<lambda>(var, val). \<not> truthy_str val)
                    [(''NANGO_CONNECTION_ID'', connection_id),
                     (''NANGO_INTEGRATION_ID'', integration_id),
                     (''NANGO_BASE_URL'', base_url),
                     (''NANGO_SECRET_KEY'', secret_key)])
            in (Inl (ValueError (''Missing required Nango environment variables: ''
                                   @ join '', '' missing_vars)), w))
         else
           (let url = the base_url @ ''/connection/'' @ the connection_id;
                params = [(''provider_config_key'', PStr (the integration_id)),
                          (''refresh_token'', PStr ''true'')];
                headers = [(''Authorization'', ''Bearer '' @ the secret_key)]
            in case http_send w \<lparr>req_method = ''GET'', req_url = url, req_headers = headers,
                                 req_params = Some params, req_json = None\<rparr> of
                 (RequestException m, w') \<Rightarrow>
                   (Inl (ValueError (''Failed to get Nango credentials: '' @ m)), w')
               | (OtherException m, w') \<Rightarrow> (Inl (OtherError m), w')
               | (Response r, w') \<Rightarrow>
                   (case http_error_msg r of
                      Some m \<Rightarrow> (Inl (ValueError (''Failed to get Nango credentials: '' @ m)), w')
                    | None \<Rightarrow>
                       (case resp_json r of
                          Parsed v \<Rightarrow> (Inr v, w')
                        | JSONDecodeError m \<Rightarrow>
                            (Inl (ValueError (''Failed to get Nango credentials: '' @ m)), w')
                        | OtherJsonError m \<Rightarrow> (Inl (OtherError m), w')))))"

text \<open>\<^verbatim>\<open>get_airtable_token\<close>, lines 58 to 70: the \<^verbatim>\<open>try\<close> block, then the \<^verbatim>\<open>except\<close> clause
  that wraps every exception of the block.\<close>

definition get_airtable_token :: "world \<Rightarrow> (exn + json) \<times> world" where
  "get_airtable_token w =
     (case get_connection_credentials w of
        (got, w') \<Rightarrow>
          (case bind_exn got (\<lambda>credentials.
                  bind_exn (bind_exn (py_contains ''credentials'' credentials) (\<lambda>has.
                              if has
                              then bind_exn (py_getitem credentials ''credentials'')
                                     (py_contains ''access_token'')
                              else Inr False))
                    (\<lambda>nested.
                       if nested
                       then bind_exn (py_getitem credentials ''credentials'')
                              (\<lambda>inner. py_getitem inner ''access_token'')
                       else bind_exn (py_contains ''access_token'' credentials) (\<lambda>flat.
                              if flat then py_getitem credentials ''access_token''
                              else Inl (ValueError
                                     ''No access_token found in Nango credentials response''))))
           of
             Inl e \<Rightarrow>
               (Inl (ValueError (''Failed to get authentication token from Nango: '' @ str_exn e)),
                w')
           | Inr token \<Rightarrow> (Inr token, w')))"

text \<open>\<^verbatim>\<open>get_headers\<close>, lines 73 to 80.\<close>

definition get_headers :: "world \<Rightarrow> (exn + (string \<times> string) list) \<times> world" where
  "get_headers w =
     (case get_airtable_token w of
        (Inl e, w') \<Rightarrow> (Inl e, w')
      | (Inr token, w') \<Rightarrow>
          (Inr [(''Authorization'', ''Bearer '' @ py_str token),
                (''Content-Type'', ''application/json'')], w'))"

section \<open>The request gateway\<close>

record kwargs =
  kw_headers :: "(string \<times> string) list option"
  kw_params :: "(string \<times> param) list option"
  kw_json :: "json option"

text \<open>
  \<^verbatim>\<open>handle_api_request\<close>, lines 83 to 115. A failure is a ValueError with its message. On
  the success path only a JSONDecodeError of \<^verbatim>\<open>response.json()\<close> is caught at line 99; any
  other exception it raises reaches the last \<^verbatim>\<open>except\<close> clause. In the handler of an
  HTTPError the bare \<^verbatim>\<open>except\<close> takes every exception.
\<close>

definition handle_api_request ::
  "world \<Rightarrow> string \<Rightarrow> string \<Rightarrow> kwargs \<Rightarrow> (exn + json) \<times> world" where
  "handle_api_request w method url kw =
     (case get_headers w of
        (Inl e, w1) \<Rightarrow> (Inl (ValueError (''Unexpected error: '' @ str_exn e)), w1)
      | (Inr headers, w1) \<Rightarrow>
          (let headers = (case kw_headers kw of
                            Some extra \<Rightarrow> dict_update headers extra
                          | None \<Rightarrow> headers)
           in case http_send w1 \<lparr>req_method = method, req_url = url, req_headers = headers,
                                 req_params = kw_params kw, req_json = kw_json kw\<rparr> of
                (RequestException m, w2) \<Rightarrow> (Inl (ValueError (''Request failed: '' @ m)), w2)
              | (OtherException m, w2) \<Rightarrow> (Inl (ValueError (''Unexpected error: '' @ m)), w2)
              | (Response r, w2) \<Rightarrow>
                  (if http_error_msg r \<noteq> None
                   then
                     (let error_detail =
                            ''HTTP '' @ str_int (status_code r) @ '': '' @ reason r;
                          error_detail =
                            (case bind_exn
                                    (case resp_json r of
                                       Parsed error_body \<Rightarrow> Inr error_body
                                     | JSONDecodeError m \<Rightarrow> Inl (OtherError m)
                                     | OtherJsonError m \<Rightarrow> Inl (OtherError m))
                                    (\<lambda>error_body.
                                       bind_exn (py_get error_body ''error'' (JObj []))
                                         (\<lambda>err. py_get err ''message''
                                                  (JStr (py_str error_body))))
                             of
                               Inr message \<Rightarrow> error_detail @ '' - '' @ py_str message
                             | Inl _ \<Rightarrow> error_detail @ '' - '' @ resp_text r)
                      in (Inl (ValueError error_detail), w2))
                   else if content r = []
                   then (Inr (JObj [(''success'', JBool True)]), w2)
                   else
                     (case resp_json r of
                        Parsed v \<Rightarrow> (Inr v, w2)
                      | JSONDecodeError m \<Rightarrow>
                          (Inr (JObj [(''raw_response'', JStr (resp_text r))]), w2)
                      | OtherJsonError m \<Rightarrow>
                          (Inl (ValueError (''Unexpected error: '' @ m)), w2)))))"

section \<open>The tools\<close>

text \<open>
  Each tool builds its URL and its \<^verbatim>\<open>params\<close> or \<^verbatim>\<open>json\<close> dict and hands them to the
  gateway. A parameter called \<^verbatim>\<open>fields\<close> in main.py is \<open>fields_p\<close> here.
\<close>

definition AIRTABLE_API_BASE :: string where
  "AIRTABLE_API_BASE = ''https://api.airtable.com/v0''"

definition list_records ::
  "world \<Rightarrow> string \<Rightarrow> string \<Rightarrow> string list option \<Rightarrow> string option \<Rightarrow> int option \<Rightarrow>
   int option \<Rightarrow> (string \<times> string) list list option \<Rightarrow> string option \<Rightarrow> string option \<Rightarrow>
   string option \<Rightarrow> string option \<Rightarrow> (exn + json) \<times> world" where
  "list_records w base_id table_id_or_name fields_p filter_by_formula max_records page_size sort_p
       view cell_format time_zone user_locale =
     handle_api_request w ''GET'' (AIRTABLE_API_BASE @ ''/'' @ base_id @ ''/'' @ table_id_or_name)
       \<lparr>kw_headers = None,
        kw_params = Some (list_records_params fields_p filter_by_formula max_records page_size
                            sort_p view cell_format time_zone user_locale),
        kw_json = None\<rparr>"

definition get_record ::
  "world \<Rightarrow> string \<Rightarrow> string \<Rightarrow> string \<Rightarrow> string option \<Rightarrow> bool option \<Rightarrow>
   (exn + json) \<times> world" where
  "get_record w base_id table_id_or_name record_id cell_format return_fields_by_field_id =
     handle_api_request w ''GET''
       (AIRTABLE_API_BASE @ ''/'' @ base_id @ ''/'' @ table_id_or_name @ ''/'' @ record_id)
       \<lparr>kw_headers = None,
        kw_params = Some (get_record_params cell_format return_fields_by_field_id),
        kw_json = None\<rparr>"

definition create_records ::
  "world \<Rightarrow> string \<Rightarrow> string \<Rightarrow> json list option \<Rightarrow> (string \<times> json) list option \<Rightarrow>
   bool option \<Rightarrow> bool option \<Rightarrow> (exn + json) \<times> world" where
  "create_records w base_id table_id_or_name records fields_p typecast return_fields_by_field_id =
     handle_api_request w ''POST'' (AIRTABLE_API_BASE @ ''/'' @ base_id @ ''/'' @ table_id_or_name)
       \<lparr>kw_headers = None, kw_params = None,
        kw_json = Some (JObj (create_records_data records fields_p typecast
                                return_fields_by_field_id))\<rparr>"

definition update_record ::
  "world \<Rightarrow> string \<Rightarrow> string \<Rightarrow> string \<Rightarrow> (string \<times> json) list \<Rightarrow> bool option \<Rightarrow>
   bool option \<Rightarrow> (exn + json) \<times> world" where
  "update_record w base_id table_id_or_name record_id fields_p typecast return_fields_by_field_id =
     handle_api_request w ''PATCH''
       (AIRTABLE_API_BASE @ ''/'' @ base_id @ ''/'' @ table_id_or_name @ ''/'' @ record_id)
       \<lparr>kw_headers = None, kw_params = None,
        kw_json = Some (JObj (update_record_data fields_p typecast return_fields_by_field_id))\<rparr>"

definition update_multiple_records ::
  "world \<Rightarrow> string \<Rightarrow> string \<Rightarrow> json list \<Rightarrow> bool option \<Rightarrow> bool option \<Rightarrow> bool option \<Rightarrow>
   string list option \<Rightarrow> (exn + json) \<times> world" where
  "update_multiple_records w base_id table_id_or_name records typecast return_fields_by_field_id
       perform_upsert fields_to_merge_on =
     handle_api_request w ''PATCH'' (AIRTABLE_API_BASE @ ''/'' @ base_id @ ''/'' @ table_id_or_name)
       \<lparr>kw_headers = None, kw_params = None,
        kw_json = Some (JObj (update_multiple_records_data records typecast
                                return_fields_by_field_id perform_upsert fields_to_merge_on))\<rparr>"

definition delete_multiple_records ::
  "world \<Rightarrow> string \<Rightarrow> string \<Rightarrow> string list \<Rightarrow> (exn + json) \<times> world" where
  "delete_multiple_records w base_id table_id_or_name record_ids =
     handle_api_request w ''DELETE'' (AIRTABLE_API_BASE @ ''/'' @ base_id @ ''/'' @ table_id_or_name)
       \<lparr>kw_headers = None, kw_params = Some (delete_multiple_records_params record_ids),
        kw_json = None\<rparr>"

definition get_users_by_id_or_email ::
  "world \<Rightarrow> string \<Rightarrow> string list option \<Rightarrow> string list option \<Rightarrow> string list option \<Rightarrow>
   (exn + json) \<times> world" where
  "get_users_by_id_or_email w enterprise_account_id user_ids emails include =
     handle_api_request w ''GET''
       (AIRTABLE_API_BASE @ ''/meta/enterpriseAccounts/'' @ enterprise_account_id @ ''/users'')
       \<lparr>kw_headers = None,
        kw_params = Some (get_users_by_id_or_email_params user_ids emails include),
        kw_json = None\<rparr>"

definition remove_user_from_enterprise ::
  "world \<Rightarrow> string \<Rightarrow> string \<Rightarrow> string option \<Rightarrow> bool option \<Rightarrow> bool option \<Rightarrow>
   (exn + json) \<times> world" where
  "remove_user_from_enterprise w enterprise_account_id user_id replacement_owner_id
       remove_from_descendants is_dry_run =
     handle_api_request w ''POST''
       (AIRTABLE_API_BASE @ ''/meta/enterpriseAccounts/'' @ enterprise_account_id @ ''/users/''
          @ user_id @ ''/remove'')
       \<lparr>kw_headers = None, kw_params = None,
        kw_json = Some (JObj (remove_user_from_enterprise_data replacement_owner_id
                                remove_from_descendants is_dry_run))\<rparr>"

section \<open>Example worlds\<close>

text \<open>
  Concrete environments and scripted networks for the worked examples: a complete Nango
  configuration, a network that answers the n-th call with the n-th reply of a list, and
  a reply given by its status, reason phrase, body text and the value the body parses to.
\<close>

definition nango_env :: "string \<Rightarrow> string option" where
  "nango_env = map_of
     [(''NANGO_CONNECTION_ID'', ''conn-1''), (''NANGO_INTEGRATION_ID'', ''airtable''),
      (''NANGO_BASE_URL'', ''https://api.nango.dev''), (''NANGO_SECRET_KEY'', ''s3cr3t'')]"

definition scripted :: "http_outcome list \<Rightarrow> nat \<Rightarrow> http_request \<Rightarrow> http_outcome" where
  "scripted replies n req =
     (if n < length replies then replies ! n else RequestException ''connection refused'')"

definition start_world :: "(string \<Rightarrow> string option) \<Rightarrow> http_outcome list \<Rightarrow> world" where
  "start_world env replies =
     \<lparr>environ = env, network = scripted replies, sent = [], broker_calls = 0\<rparr>"

definition json_reply :: "int \<Rightarrow> string \<Rightarrow> string \<Rightarrow> json \<Rightarrow> http_outcome" where
  "json_reply code phrase raw v =
     Response \<lparr>status_code = code, reason = phrase, resp_url = ''https://example.invalid/'',
               content = raw, resp_text = raw, resp_json = Parsed v\<rparr>"

section \<open>Dictionaries and decimal numerals\<close>

lemma truthy_list_simps:
  "truthy_list None = False" "truthy_list (Some xs) = (xs \<noteq> [])"
  by (simp_all add: truthy_list_def)

lemma truthy_str_iff: "truthy_str x \<longleftrightarrow> \<not> (x = None \<or> x = Some [])"
  by (cases x) (simp_all add: truthy_str_def)

lemma dict_set_keys: "set (map fst (dict_set d k v)) = insert k (set (map fst d))"
proof (induction d)
  case Nil
  show ?case by simp
next
  case (Cons kv d)
  obtain k' v' where kv: "kv = (k', v')" by (cases kv)
  show ?case
  proof (cases "k' = k")
    case True
    then show ?thesis by (simp add: kv)
  next
    case False
    then show ?thesis using Cons by (simp add: kv insert_commute)
  qed
qed

lemma dict_set_fresh: "k \<notin> set (map fst d) \<Longrightarrow> dict_set d k v = d @ [(k, v)]"
  by (induction d) auto

lemma fold_dict_set_same_key:
  "fold (\<lambda>x p. dict_set p k (f x)) xs ((k, v) # d) = (k, if xs = [] then v else f (last xs)) # d"
  by (induction xs arbitrary: v) auto

lemma fold_dict_set_same_key_empty:
  "xs \<noteq> [] \<Longrightarrow> fold (\<lambda>x p. dict_set p k (f x)) xs [] = [(k, f (last xs))]"
  by (cases xs) (simp_all add: fold_dict_set_same_key)

lemma has_key_iff: "k \<in> set (map fst d) \<longleftrightarrow> (\<exists>v. map_of d k = Some v)"
  using map_of_eq_None_iff [of d k] by auto

lemma digit_inj:
  assumes "a < 10" "b < 10" "''0123456789'' ! a = ''0123456789'' ! b"
  shows "a = b"
proof -
  have "distinct ''0123456789''" by simp
  moreover have "a < length ''0123456789''" "b < length ''0123456789''" using assms by simp_all
  ultimately show ?thesis using assms(3) by (simp only: nth_eq_iff_index_eq)
qed

lemma str_nat_nonempty: "str_nat n \<noteq> []"
  by (subst str_nat.simps) simp

lemma str_nat_digits: "set (str_nat n) \<subseteq> set ''0123456789''"
proof (induction n rule: str_nat.induct)
  case (1 n)
  have d: "\<And>k. k < 10 \<Longrightarrow> ''0123456789'' ! k \<in> set ''0123456789''"
    by (rule nth_mem) simp
  show ?case
  proof (cases "n < 10")
    case True
    then show ?thesis using d [of n] by (subst str_nat.simps) simp
  next
    case False
    have "n mod 10 < 10" by simp
    then show ?thesis using False 1 d [of "n mod 10"] by (subst str_nat.simps) simp
  qed
qed

lemma str_nat_inj: "str_nat m = str_nat n \<Longrightarrow> m = n"
proof (induction m arbitrary: n rule: str_nat.induct)
  case (1 m)
  show ?case
  proof (cases "m < 10")
    case m: True
    show ?thesis
    proof (cases "n < 10")
      case True
      with m 1(2) show ?thesis
        by (simp add: str_nat.simps [of m] str_nat.simps [of n] digit_inj)
    next
      case False
      with m 1(2) str_nat_nonempty [of "n div 10"] show ?thesis
        by (simp add: str_nat.simps [of m] str_nat.simps [of n])
    qed
  next
    case m: False
    show ?thesis
    proof (cases "n < 10")
      case True
      with m 1(2) str_nat_nonempty [of "m div 10"] show ?thesis
        by (simp add: str_nat.simps [of m] str_nat.simps [of n])
    next
      case False
      with m 1(2) have e: "str_nat (m div 10) = str_nat (n div 10)"
        and d: "''0123456789'' ! (m mod 10) = ''0123456789'' ! (n mod 10)"
        by (simp_all add: str_nat.simps [of m] str_nat.simps [of n])
      from 1(1) [OF m e] have "m div 10 = n div 10" .
      moreover from d have "m mod 10 = n mod 10" by (intro digit_inj) simp_all
      ultimately show ?thesis by (metis div_mult_mod_eq)
    qed
  qed
qed

lemma takeWhile_upto:
  "c \<notin> set xs \<Longrightarrow> takeWhile (\<lambda>x. x \<noteq> c) (xs @ c # r) = xs"
  by (induction xs) auto

lemma split_at_first:
  assumes "xs @ c # r = ys @ c # r'" "c \<notin> set xs" "c \<notin> set ys"
  shows "xs = ys"
proof -
  have "takeWhile (\<lambda>x. x \<noteq> c) (xs @ c # r) = xs"
    using assms(2) by (rule takeWhile_upto)
  moreover have "takeWhile (\<lambda>x. x \<noteq> c) (ys @ c # r') = ys"
    using assms(3) by (rule takeWhile_upto)
  ultimately show ?thesis using assms(1) by simp
qed

lemma sort_key_index_inj:
  assumes "sort_key i k = sort_key j k'"
  shows "i = j"
proof -
  have nb: "\<And>n. CHR '']'' \<notin> set (str_nat n)"
    using str_nat_digits by fastforce
  from assms
  have "str_nat i @ CHR '']'' # (''['' @ k @ '']'') = str_nat j @ CHR '']'' # (''['' @ k' @ '']'')"
    by (simp add: sort_key_def)
  then have "str_nat i = str_nat j"
    by (rule split_at_first [OF _ nb nb])
  then show ?thesis by (rule str_nat_inj)
qed

lemma sort_key_name_inj: "sort_key i k = sort_key i k' \<Longrightarrow> k = k'"
  by (simp add: sort_key_def)

lemma sort_key_prefix: "take 5 (sort_key i k) = ''sort[''"
  by (simp add: sort_key_def)

section \<open>List-valued query parameters\<close>

text \<open>The definitions a run in an example world unfolds.\<close>

lemmas run_defs =
  handle_api_request_def get_headers_def get_airtable_token_def
  get_connection_credentials_def start_world_def nango_env_def truthy_str_def http_send_def
  scripted_def json_reply_def http_error_msg_def bind_exn_def py_str_def Let_def

lemma list_records_fields_last:
  "fs \<noteq> [] \<Longrightarrow>
   encode_params (list_records_params (Some fs) None None None None None None None None)
     = [(''fields[]'', last fs)]"
  by (simp add: list_records_params_def truthy_list_def truthy_str_def truthy_int_def
      fold_dict_set_same_key_empty encode_params_def)

text \<open>
  Claim C1 asks for one \<^verbatim>\<open>fields[]\<close> (\<^verbatim>\<open>id[]\<close>, \<^verbatim>\<open>email[]\<close>) entry per list element. The
  loops of \<^verbatim>\<open>list_records\<close> and \<^verbatim>\<open>get_users_by_id_or_email\<close> store every element under the
  same dict key, so only the last element is left: \<^verbatim>\<open>fields=["Name","Status"]\<close> is sent as
  the single pair \<^verbatim>\<open>fields[]=Status\<close>, also in the request \<^verbatim>\<open>list_records\<close> issues. The
  sibling \<^verbatim>\<open>delete_multiple_records\<close> stores the list itself and gets one \<^verbatim>\<open>records[]\<close>
  entry per element, in order.
\<close>

theorem list_fields_keep_only_last:
  \<open>encode_params (list_records_params (Some [''Name'', ''Status''])
       None None None None None None None None)
     = [(''fields[]'', ''Status'')]
   \<and> encode_params (get_users_by_id_or_email_params (Some [''usr1'', ''usr2''])
          (Some [''a@example.com'', ''b@example.com'']) None)
     = [(''id[]'', ''usr2''), (''email[]'', ''b@example.com'')]
   \<and> encode_params (delete_multiple_records_params [''rec1'', ''rec2''])
     = [(''records[]'', ''rec1''), (''records[]'', ''rec2'')]
   \<and> map (\<lambda>r. map_option encode_params (req_params r))
        (sent (snd (list_records
           (start_world nango_env
              [json_reply 200 ''OK'' ''{"access_token": "tok456"}''
                 (JObj [(''access_token'', JStr ''tok456'')]),
               json_reply 200 ''OK'' ''{"records": []}'' (JObj [(''records'', JList [])])])
           ''app1'' ''Tasks'' (Some [''Name'', ''Status''])
           None None None None None None None None)))
     = [Some [(''provider_config_key'', ''airtable''), (''refresh_token'', ''true'')],
        Some [(''fields[]'', ''Status'')]]\<close>
  by (simp add: list_records_def list_records_params_def get_users_by_id_or_email_params_def
      delete_multiple_records_params_def truthy_list_def truthy_int_def encode_params_def
      run_defs)

section \<open>Falsy optional parameters of list_records\<close>


section \<open>Sort specifications\<close>

lemma inner_sort_fold:
  "distinct (map fst obj) \<Longrightarrow>
   (\<forall>k\<in>set (map fst obj). sort_key n k \<notin> set (map fst p)) \<Longrightarrow>
   fold (\<lambda>(key, val) p'. dict_set p' (sort_key n key) (PStr val)) obj p
     = p @ map (\<lambda>(k, v). (sort_key n k, PStr v)) obj"
proof (induction obj arbitrary: p)
  case Nil
  show ?case by simp
next
  case (Cons kv obj)
  obtain k v where kv: "kv = (k, v)" by (cases kv)
  from Cons.prems(2) have fresh: "sort_key n k \<notin> set (map fst p)"
    by (simp add: kv)
  have step: "dict_set p (sort_key n k) (PStr v) = p @ [(sort_key n k, PStr v)]"
    using fresh by (rule dict_set_fresh)
  have d: "distinct (map fst obj)" using Cons.prems(1) by simp
  have "\<forall>k'\<in>set (map fst obj). sort_key n k' \<notin> set (map fst (p @ [(sort_key n k, PStr v)]))"
  proof
    fix k' assume k': "k' \<in> set (map fst obj)"
    then have "k' \<noteq> k" using Cons.prems(1) by (auto simp: kv)
    then have "sort_key n k' \<noteq> sort_key n k" using sort_key_name_inj by blast
    moreover have "sort_key n k' \<notin> set (map fst p)" using Cons.prems(2) k' by auto
    ultimately show "sort_key n k' \<notin> set (map fst (p @ [(sort_key n k, PStr v)]))" by simp
  qed
  from Cons.IH [OF d this] show ?case by (simp add: kv step)
qed

lemma outer_sort_fold:
  "(\<forall>obj\<in>set ss. distinct (map fst obj)) \<Longrightarrow>
   (\<forall>k\<in>set (map fst p). \<forall>i\<ge>n. \<forall>key. k \<noteq> sort_key i key) \<Longrightarrow>
   fold (\<lambda>(i, sort_obj) p.
           fold (\<lambda>(key, val) p'. dict_set p' (sort_key i key) (PStr val)) sort_obj p)
        (enumerate n ss) p
     = p @ concat (map (\<lambda>(i, obj). map (\<lambda>(k, v). (sort_key i k, PStr v)) obj) (enumerate n ss))"
proof (induction ss arbitrary: n p)
  case Nil
  show ?case by simp
next
  case (Cons obj ss)
  let ?new = "map (\<lambda>(k, v). (sort_key n k, PStr v)) obj"
  have d: "distinct (map fst obj)" using Cons.prems(1) by simp
  have fresh: "\<forall>k\<in>set (map fst obj). sort_key n k \<notin> set (map fst p)"
    using Cons.prems(2) by (metis order_refl)
  have inner: "fold (\<lambda>(key, val) p'. dict_set p' (sort_key n key) (PStr val)) obj p = p @ ?new"
    using d fresh by (rule inner_sort_fold)
  have later: "\<forall>k\<in>set (map fst (p @ ?new)). \<forall>i\<ge>Suc n. \<forall>key. k \<noteq> sort_key i key"
  proof (intro ballI allI impI)
    fix k i key assume k: "k \<in> set (map fst (p @ ?new))" and i: "Suc n \<le> i"
    show "k \<noteq> sort_key i key"
    proof (cases "k \<in> set (map fst p)")
      case True
      then show ?thesis using Cons.prems(2) i by (metis Suc_leD)
    next
      case False
      with k obtain k0 where "k = sort_key n k0" by auto
      then show ?thesis using i sort_key_index_inj [of n k0 i key] by auto
    qed
  qed
  have rest: "\<forall>obj\<in>set ss. distinct (map fst obj)" using Cons.prems(1) by simp
  have
    "fold (\<lambda>(i, sort_obj) p.
           fold (\<lambda>(key, val) p'. dict_set p' (sort_key i key) (PStr val)) sort_obj p)
        (enumerate (Suc n) ss) (p @ ?new)
     = (p @ ?new) @ concat (map (\<lambda>(i, obj). map (\<lambda>(k, v). (sort_key i k, PStr v)) obj)
          (enumerate (Suc n) ss))"
    using rest later by (rule Cons.IH)
  then show ?case by (simp add: inner)
qed

lemma keep_step:
  "(\<forall>k\<in>set (map fst p). take 5 k \<noteq> ''sort['') \<Longrightarrow> take 5 k' \<noteq> ''sort['' \<Longrightarrow>
   (\<forall>k\<in>set (map fst (if c then dict_set p k' v else p)). take 5 k \<noteq> ''sort['')"
  by (simp add: dict_set_keys del: set_map)

lemma keep_fold:
  "(\<forall>k\<in>set (map fst p). take 5 k \<noteq> ''sort['') \<Longrightarrow> take 5 k' \<noteq> ''sort['' \<Longrightarrow>
   (\<forall>k\<in>set (map fst (if c then fold (\<lambda>x p. dict_set p k' (f x)) xs p else p)).
      take 5 k \<noteq> ''sort['')"
proof (induction xs arbitrary: p)
  case Nil
  then show ?case by simp
next
  case (Cons x xs)
  from Cons.prems have "\<forall>k\<in>set (map fst (dict_set p k' (f x))). take 5 k \<noteq> ''sort[''"
    by (simp add: dict_set_keys del: set_map)
  from Cons.IH [OF this Cons.prems(2)] Cons.prems(1) show ?case by (simp split: if_splits)
qed

lemma list_records_unsorted_keys:
  "\<forall>k\<in>set (map fst (list_records_params fs fbf mr ps None v cf tz ul)). take 5 k \<noteq> ''sort[''"
  unfolding list_records_params_def Let_def
  apply (simp only: truthy_list_simps(1) [where 'a = "(string \<times> string) list"] if_False)
  apply (intro keep_step keep_fold)
  apply simp_all
  done

lemma list_records_sort_split:
  "list_records_params fs fbf mr ps (Some ss) v cf tz ul
     = fold (\<lambda>(i, sort_obj) p.
           fold (\<lambda>(key, val) p'. dict_set p' (sort_key i key) (PStr val)) sort_obj p)
        (enumerate 0 ss) (list_records_params fs fbf mr ps None v cf tz ul)"
  by (cases "ss = []") (simp_all add: list_records_params_def truthy_list_simps Let_def)

text \<open>
  Claim C6. For every sort list whose elements are dicts (their keys distinct),
  \<^verbatim>\<open>list_records\<close> appends to the other parameters, for each element \<open>i\<close> in order and each
  of its keys \<open>k\<close> in the element's own order, the entry \<^verbatim>\<open>sort[i][k]\<close> with the element's
  value for \<open>k\<close>; the encoded query ends with exactly these pairs.
\<close>

theorem list_records_sort_encoding:
  assumes "\<forall>obj\<in>set ss. distinct (map fst obj)"
  shows "list_records_params fs fbf mr ps (Some ss) v cf tz ul
     = list_records_params fs fbf mr ps None v cf tz ul
       @ concat (map (\<lambda>(i, obj).
                        map (\<lambda>(k, val). (''sort['' @ str_nat i @ '']['' @ k @ '']'', PStr val)) obj)
                     (enumerate 0 ss))
   \<and> encode_params (list_records_params fs fbf mr ps (Some ss) v cf tz ul)
     = encode_params (list_records_params fs fbf mr ps None v cf tz ul)
       @ concat (map (\<lambda>(i, obj).
                        map (\<lambda>(k, val). (''sort['' @ str_nat i @ '']['' @ k @ '']'', val)) obj)
                     (enumerate 0 ss))"
proof -
  have free: "\<forall>k\<in>set (map fst (list_records_params fs fbf mr ps None v cf tz ul)).
                \<forall>i\<ge>0. \<forall>key. k \<noteq> sort_key i key"
    using list_records_unsorted_keys [of fs fbf mr ps v cf tz ul] sort_key_prefix by metis
  have eq: "list_records_params fs fbf mr ps (Some ss) v cf tz ul
     = list_records_params fs fbf mr ps None v cf tz ul
       @ concat (map (\<lambda>(i, obj). map (\<lambda>(k, val). (sort_key i k, PStr val)) obj) (enumerate 0 ss))"
    unfolding list_records_sort_split by (rule outer_sort_fold [OF assms free])
  have enc: "encode_params (concat (map (\<lambda>(i, obj). map (\<lambda>(k, val). (sort_key i k, PStr val)) obj) xs))
     = concat (map (\<lambda>(i, obj). map (\<lambda>(k, val). (sort_key i k, val)) obj) xs)" for xs
    by (induction xs) (auto simp: encode_params_def comp_def case_prod_unfold)
  have app: "encode_params (a @ b) = encode_params a @ encode_params b" for a b
    by (simp add: encode_params_def)
  have "encode_params (list_records_params fs fbf mr ps (Some ss) v cf tz ul)
     = encode_params (list_records_params fs fbf mr ps None v cf tz ul)
       @ concat (map (\<lambda>(i, obj). map (\<lambda>(k, val). (sort_key i k, val)) obj) (enumerate 0 ss))"
    by (simp only: eq app enc)
  with eq show ?thesis
    by (simp only: sort_key_def)
qed

text \<open>
  The worked example of the specification, \<^verbatim>\<open>sort=[{"field":"Name","direction":"asc"}]\<close>,
  and a two-element list beside other parameters.
\<close>

theorem list_records_sort_encoding_witness:
  "encode_params (list_records_params None None None None
       (Some [[(''field'', ''Name''), (''direction'', ''asc'')]]) None None None None)
     = [(''sort[0][field]'', ''Name''), (''sort[0][direction]'', ''asc'')]
   \<and> encode_params (list_records_params None None (Some 3) None
       (Some [[(''field'', ''Name'')], [(''field'', ''Age''), (''direction'', ''desc'')]])
       (Some ''Grid'') None None None)
     = [(''maxRecords'', ''3''), (''view'', ''Grid''), (''sort[0][field]'', ''Name''),
        (''sort[1][field]'', ''Age''), (''sort[1][direction]'', ''desc'')]"
  using list_records_sort_encoding [of "[[(''field'', ''Name''), (''direction'', ''asc'')]]"
      None None None None None None None None]
    list_records_sort_encoding
      [of "[[(''field'', ''Name'')], [(''field'', ''Age''), (''direction'', ''desc'')]]"
      None None "Some 3" None "Some ''Grid''" None None None]
  by (simp add: list_records_params_def truthy_list_def truthy_str_def truthy_int_def
      encode_params_def str_nat.simps str_int_def enumerate_eq_zip)

section \<open>Bodies of create and update\<close>

text \<open>
  Claim C7. The body of \<^verbatim>\<open>create_records\<close> never holds both \<^verbatim>\<open>records\<close> and \<^verbatim>\<open>fields\<close>: a
  non-empty batch goes under \<^verbatim>\<open>records\<close> and a \<^verbatim>\<open>fields\<close> argument given with it is left
  out; a non-empty \<^verbatim>\<open>fields\<close> mapping goes under \<^verbatim>\<open>fields\<close> when no batch is given (none,
  or an empty one), and \<^verbatim>\<open>fields\<close> is in the body in that case only.
\<close>

theorem create_records_one_form:
  "(let data = create_records_data records fs typecast rf in
      \<not> (''records'' \<in> fst ` set data \<and> ''fields'' \<in> fst ` set data)
    \<and> (\<forall>rs. records = Some rs \<and> rs \<noteq> [] \<longrightarrow>
          map_of data ''records'' = Some (JList rs) \<and> map_of data ''fields'' = None)
    \<and> (\<forall>f. (records = None \<or> records = Some []) \<and> fs = Some f \<and> f \<noteq> [] \<longrightarrow>
          map_of data ''fields'' = Some (JObj f) \<and> map_of data ''records'' = None)
    \<and> (\<forall>x. map_of data ''fields'' = Some x \<longrightarrow>
          (records = None \<or> records = Some []) \<and> fs \<noteq> None \<and> x = JObj (the fs)))"
  by (auto simp add: create_records_data_def truthy_list_def Let_def split: option.splits)

theorem create_records_one_form_witness:
  "create_records_data (Some [JObj [(''fields'', JObj [(''Name'', JStr ''a'')])]])
       (Some [(''Name'', JStr ''b'')]) None None
     = [(''records'', JList [JObj [(''fields'', JObj [(''Name'', JStr ''a'')])]])]
   \<and> create_records_data None (Some [(''Name'', JStr ''b'')]) None None
     = [(''fields'', JObj [(''Name'', JStr ''b'')])]"
  using create_records_one_form [of "Some [JObj [(''fields'', JObj [(''Name'', JStr ''a'')])]]"
      "Some [(''Name'', JStr ''b'')]" None None]
  by (simp add: create_records_data_def truthy_list_def)

section \<open>Optional boolean flags\<close>

lemma get_record_bool:
  "map_of (get_record_params cf rf) ''returnFieldsByFieldId'' = map_option PBool rf"
  "filter (\<lambda>(k, v). k = ''returnFieldsByFieldId'') (encode_params (get_record_params cf rf))
       = (case rf of None \<Rightarrow> [] | Some b \<Rightarrow>
            [(''returnFieldsByFieldId'', if b then ''True'' else ''False'')])"
  by (cases rf; cases "truthy_str cf"; simp add: get_record_params_def encode_params_def)+

lemma create_records_bool:
  "map_of (create_records_data records fs tc rf) ''typecast'' = map_option JBool tc"
  "map_of (create_records_data records fs tc rf) ''returnFieldsByFieldId'' = map_option JBool rf"
  by (cases tc; cases rf; cases "truthy_list records"; cases "truthy_list fs";
      simp add: create_records_data_def)+

lemma update_record_bool:
  "map_of (update_record_data fs' tc rf) ''typecast'' = map_option JBool tc"
  "map_of (update_record_data fs' tc rf) ''returnFieldsByFieldId'' = map_option JBool rf"
  by (cases tc; cases rf; simp add: update_record_data_def)+

lemma update_multiple_records_bool:
  "map_of (update_multiple_records_data records' tc rf pu fm) ''typecast'' = map_option JBool tc"
  "map_of (update_multiple_records_data records' tc rf pu fm) ''returnFieldsByFieldId''
       = map_option JBool rf"
  "map_of (update_multiple_records_data records' tc rf pu fm) ''performUpsert''
       = map_option JBool pu"
  by (cases tc; cases rf; cases pu; cases "truthy_list fm";
      simp add: update_multiple_records_data_def)+

lemma remove_user_bool:
  "map_of (remove_user_from_enterprise_data ro rd dr) ''removeFromDescendants''
       = map_option JBool rd"
  "map_of (remove_user_from_enterprise_data ro rd dr) ''isDryRun'' = map_option JBool dr"
  by (cases rd; cases dr; cases "truthy_str ro";
      simp add: remove_user_from_enterprise_data_def)+

text \<open>
  Claim C8. For each optional boolean of the record operations (\<^verbatim>\<open>typecast\<close>,
  \<^verbatim>\<open>return_fields_by_field_id\<close>, \<^verbatim>\<open>perform_upsert\<close>, \<^verbatim>\<open>remove_from_descendants\<close>,
  \<^verbatim>\<open>is_dry_run\<close>) the key is in the query or body exactly when the parameter is not
  \<^verbatim>\<open>None\<close>, and then holds the parameter's value, \<^verbatim>\<open>False\<close> as well as \<^verbatim>\<open>True\<close>.
\<close>

theorem optional_booleans_only_none_omitted:
  "map_of (get_record_params cf rf) ''returnFieldsByFieldId'' = map_option PBool rf
   \<and> filter (\<lambda>(k, v). k = ''returnFieldsByFieldId'') (encode_params (get_record_params cf rf))
       = (case rf of None \<Rightarrow> [] | Some b \<Rightarrow>
            [(''returnFieldsByFieldId'', if b then ''True'' else ''False'')])
   \<and> map_of (create_records_data records fs tc rf) ''typecast'' = map_option JBool tc
   \<and> map_of (create_records_data records fs tc rf) ''returnFieldsByFieldId'' = map_option JBool rf
   \<and> map_of (update_record_data fs' tc rf) ''typecast'' = map_option JBool tc
   \<and> map_of (update_record_data fs' tc rf) ''returnFieldsByFieldId'' = map_option JBool rf
   \<and> map_of (update_multiple_records_data records' tc rf pu fm) ''typecast'' = map_option JBool tc
   \<and> map_of (update_multiple_records_data records' tc rf pu fm) ''returnFieldsByFieldId''
       = map_option JBool rf
   \<and> map_of (update_multiple_records_data records' tc rf pu fm) ''performUpsert''
       = map_option JBool pu
   \<and> map_of (remove_user_from_enterprise_data ro rd dr) ''removeFromDescendants''
       = map_option JBool rd
   \<and> map_of (remove_user_from_enterprise_data ro rd dr) ''isDryRun'' = map_option JBool dr"
  by (simp only: get_record_bool create_records_bool update_record_bool
      update_multiple_records_bool remove_user_bool simp_thms)

section \<open>Missing configuration\<close>

lemma missing_names_in_message_all:
  "\<forall>a b c d.
   \<forall>n\<in>set [''NANGO_CONNECTION_ID'', ''NANGO_INTEGRATION_ID'', ''NANGO_BASE_URL'',
             ''NANGO_SECRET_KEY''].
     sublist n (''Missing required Nango environment variables: ''
                 @ join '', '' (map fst (filter (\<lambda>(var, ok). \<not> ok)
                     [(''NANGO_CONNECTION_ID'', a), (''NANGO_INTEGRATION_ID'', b),
                      (''NANGO_BASE_URL'', c), (''NANGO_SECRET_KEY'', d)])))
     \<longleftrightarrow> (n = ''NANGO_CONNECTION_ID'' \<and> \<not> a \<or> n = ''NANGO_INTEGRATION_ID'' \<and> \<not> b
          \<or> n = ''NANGO_BASE_URL'' \<and> \<not> c \<or> n = ''NANGO_SECRET_KEY'' \<and> \<not> d)"
  by code_simp

text \<open>
  Claim C5. When at least one of \<^verbatim>\<open>NANGO_CONNECTION_ID\<close>, \<^verbatim>\<open>NANGO_INTEGRATION_ID\<close>,
  \<^verbatim>\<open>NANGO_BASE_URL\<close>, \<^verbatim>\<open>NANGO_SECRET_KEY\<close> is unset or empty,
  \<^verbatim>\<open>get_connection_credentials\<close> fails without sending anything, with the message
  \<^verbatim>\<open>Missing required Nango environment variables: \<close> followed by the unset or empty names
  in that order, joined by a comma and a space; each of the four names occurs in the
  message exactly when its variable is unset or empty.
\<close>

theorem missing_config_named:
  assumes "\<exists>n\<in>set [''NANGO_CONNECTION_ID'', ''NANGO_INTEGRATION_ID'', ''NANGO_BASE_URL'',
                    ''NANGO_SECRET_KEY'']. environ w n = None \<or> environ w n = Some []"
  shows "get_connection_credentials w
       = (Inl (ValueError (''Missing required Nango environment variables: ''
            @ join '', '' (filter (\<lambda>n. environ w n = None \<or> environ w n = Some [])
                [''NANGO_CONNECTION_ID'', ''NANGO_INTEGRATION_ID'', ''NANGO_BASE_URL'',
                 ''NANGO_SECRET_KEY'']))),
          w\<lparr>broker_calls := Suc (broker_calls w)\<rparr>)
     \<and> sent (snd (get_connection_credentials w)) = sent w
     \<and> (\<forall>n\<in>set [''NANGO_CONNECTION_ID'', ''NANGO_INTEGRATION_ID'', ''NANGO_BASE_URL'',
                  ''NANGO_SECRET_KEY''].
          sublist n (''Missing required Nango environment variables: ''
            @ join '', '' (filter (\<lambda>n. environ w n = None \<or> environ w n = Some [])
                [''NANGO_CONNECTION_ID'', ''NANGO_INTEGRATION_ID'', ''NANGO_BASE_URL'',
                 ''NANGO_SECRET_KEY'']))
          \<longleftrightarrow> (environ w n = None \<or> environ w n = Some []))"
proof -
  let ?a = "truthy_str (environ w ''NANGO_CONNECTION_ID'')"
  let ?b = "truthy_str (environ w ''NANGO_INTEGRATION_ID'')"
  let ?c = "truthy_str (environ w ''NANGO_BASE_URL'')"
  let ?d = "truthy_str (environ w ''NANGO_SECRET_KEY'')"
  let ?names = "[''NANGO_CONNECTION_ID'', ''NANGO_INTEGRATION_ID'', ''NANGO_BASE_URL'',
                 ''NANGO_SECRET_KEY'']"
  let ?missing = "filter (\<lambda>n. environ w n = None \<or> environ w n = Some []) ?names"
  have flt: "?missing = map fst (filter (\<lambda>(var, ok). \<not> ok)
       [(''NANGO_CONNECTION_ID'', ?a), (''NANGO_INTEGRATION_ID'', ?b),
        (''NANGO_BASE_URL'', ?c), (''NANGO_SECRET_KEY'', ?d)])"
    by (simp add: truthy_str_iff)
  have flt': "map fst (filter (\<lambda>(var, val). \<not> truthy_str val)
       [(''NANGO_CONNECTION_ID'', environ w ''NANGO_CONNECTION_ID''),
        (''NANGO_INTEGRATION_ID'', environ w ''NANGO_INTEGRATION_ID''),
        (''NANGO_BASE_URL'', environ w ''NANGO_BASE_URL''),
        (''NANGO_SECRET_KEY'', environ w ''NANGO_SECRET_KEY'')]) = ?missing"
    by (simp add: truthy_str_iff)
  have some: "\<not> (?a \<and> ?b \<and> ?c \<and> ?d)"
    using assms by (auto simp: truthy_str_iff)
  have res: "get_connection_credentials w
       = (Inl (ValueError (''Missing required Nango environment variables: ''
            @ join '', '' ?missing)), w\<lparr>broker_calls := Suc (broker_calls w)\<rparr>)"
  proof -
    have env: "environ (w\<lparr>broker_calls := Suc (broker_calls w)\<rparr>) = environ w" by simp
    show ?thesis
      unfolding get_connection_credentials_def Let_def env
      by (simp only: some flt' if_True simp_thms)
  qed
  have key: "\<forall>n\<in>set ?names.
      (n = ''NANGO_CONNECTION_ID'' \<and> \<not> ?a \<or> n = ''NANGO_INTEGRATION_ID'' \<and> \<not> ?b
        \<or> n = ''NANGO_BASE_URL'' \<and> \<not> ?c \<or> n = ''NANGO_SECRET_KEY'' \<and> \<not> ?d)
      \<longleftrightarrow> (environ w n = None \<or> environ w n = Some [])"
    by (simp add: truthy_str_iff)
  have names: "\<forall>n\<in>set ?names.
      sublist n (''Missing required Nango environment variables: '' @ join '', '' ?missing)
        \<longleftrightarrow> (environ w n = None \<or> environ w n = Some [])"
  proof
    fix n assume n: "n \<in> set ?names"
    have "sublist n (''Missing required Nango environment variables: '' @ join '', '' ?missing)
        \<longleftrightarrow> (n = ''NANGO_CONNECTION_ID'' \<and> \<not> ?a \<or> n = ''NANGO_INTEGRATION_ID'' \<and> \<not> ?b
        \<or> n = ''NANGO_BASE_URL'' \<and> \<not> ?c \<or> n = ''NANGO_SECRET_KEY'' \<and> \<not> ?d)"
      unfolding flt by (rule missing_names_in_message_all [rule_format, OF n])
    also have "\<dots> \<longleftrightarrow> (environ w n = None \<or> environ w n = Some [])"
      using key n by (rule bspec)
    finally show "sublist n (''Missing required Nango environment variables: '' @ join '', '' ?missing)
        \<longleftrightarrow> (environ w n = None \<or> environ w n = Some [])" .
  qed
  have unsent: "sent (snd (get_connection_credentials w)) = sent w"
    unfolding res by simp
  show ?thesis
    using res unsent names by (intro conjI)
qed

text \<open>
  With \<^verbatim>\<open>NANGO_BASE_URL\<close> unset and \<^verbatim>\<open>NANGO_SECRET_KEY\<close> empty the message names these two.
\<close>

theorem missing_config_named_witness:
  "fst (get_connection_credentials
         (start_world (nango_env(''NANGO_BASE_URL'' := None, ''NANGO_SECRET_KEY'' := Some [])) []))
     = Inl (ValueError
         ''Missing required Nango environment variables: NANGO_BASE_URL, NANGO_SECRET_KEY'')
   \<and> sent (snd (get_connection_credentials
         (start_world (nango_env(''NANGO_BASE_URL'' := None, ''NANGO_SECRET_KEY'' := Some [])) [])))
     = []"
  using missing_config_named
    [of "start_world (nango_env(''NANGO_BASE_URL'' := None, ''NANGO_SECRET_KEY'' := Some [])) []"]
  by (simp add: start_world_def nango_env_def)

section \<open>Token extraction\<close>

text \<open>
  Claim C4, for a broker payload that is a JSON object whose \<^verbatim>\<open>credentials\<close> member, when
  there is one, is an object. \<^verbatim>\<open>get_airtable_token\<close> returns the nested
  \<^verbatim>\<open>credentials.access_token\<close> when it is there, otherwise the flat \<^verbatim>\<open>access_token\<close> when it
  is there, and otherwise fails with a message that contains \<^verbatim>\<open>No access_token found\<close>. It
  sends nothing beyond the broker call.
\<close>

theorem token_from_accepted_shapes:
  assumes "fst (get_connection_credentials w) = Inr (JObj d)"
    and "map_of d ''credentials'' = None \<or> (\<exists>c. map_of d ''credentials'' = Some (JObj c))"
  shows "(\<forall>c t. map_of d ''credentials'' = Some (JObj c) \<and> map_of c ''access_token'' = Some t
            \<longrightarrow> fst (get_airtable_token w) = Inr t)
       \<and> (\<forall>t. \<not> (\<exists>c t'. map_of d ''credentials'' = Some (JObj c)
                          \<and> map_of c ''access_token'' = Some t')
              \<and> map_of d ''access_token'' = Some t
            \<longrightarrow> fst (get_airtable_token w) = Inr t)
       \<and> (\<not> (\<exists>c t'. map_of d ''credentials'' = Some (JObj c)
                          \<and> map_of c ''access_token'' = Some t')
              \<and> map_of d ''access_token'' = None
            \<longrightarrow> fst (get_airtable_token w) = Inl (ValueError
                  ''Failed to get authentication token from Nango: No access_token found in Nango credentials response''))
       \<and> sublist ''No access_token found''
            ''Failed to get authentication token from Nango: No access_token found in Nango credentials response''
       \<and> snd (get_airtable_token w) = snd (get_connection_credentials w)"
proof -
  obtain w' where got: "get_connection_credentials w = (Inr (JObj d), w')"
    using assms(1) by (cases "get_connection_credentials w") simp
  have msg: "sublist ''No access_token found''
      ''Failed to get authentication token from Nango: No access_token found in Nango credentials response''"
    by code_simp
  have world: "snd (get_airtable_token w) = snd (get_connection_credentials w)"
    by (simp add: get_airtable_token_def got split: sum.splits)
  from assms(2) show ?thesis
  proof
    assume none: "map_of d ''credentials'' = None"
    then have nokey: "''credentials'' \<notin> set (map fst d)"
      by (simp add: has_key_iff del: set_map)
    show ?thesis
    proof (cases "map_of d ''access_token''")
      case None
      then have "''access_token'' \<notin> set (map fst d)"
        by (simp add: has_key_iff del: set_map)
      then have "fst (get_airtable_token w) = Inl (ValueError
          ''Failed to get authentication token from Nango: No access_token found in Nango credentials response'')"
        using nokey by (simp add: get_airtable_token_def got bind_exn_def del: set_map)
      then show ?thesis using none None msg world by simp
    next
      case (Some t)
      then have "''access_token'' \<in> set (map fst d)"
        by (simp add: has_key_iff del: set_map)
      then have "fst (get_airtable_token w) = Inr t"
        using nokey Some by (simp add: get_airtable_token_def got bind_exn_def del: set_map)
      then show ?thesis using none Some msg world by simp
    qed
  next
    assume "\<exists>c. map_of d ''credentials'' = Some (JObj c)"
    then obtain c where c: "map_of d ''credentials'' = Some (JObj c)" ..
    then have key: "''credentials'' \<in> set (map fst d)"
      by (simp add: has_key_iff del: set_map)
    show ?thesis
    proof (cases "map_of c ''access_token''")
      case (Some t)
      then have "''access_token'' \<in> set (map fst c)"
        by (simp add: has_key_iff del: set_map)
      then have "fst (get_airtable_token w) = Inr t"
        using key c Some by (simp add: get_airtable_token_def got bind_exn_def del: set_map)
      then show ?thesis using c Some msg world by simp
    next
      case None
      then have inner: "''access_token'' \<notin> set (map fst c)"
        by (simp add: has_key_iff del: set_map)
      show ?thesis
      proof (cases "map_of d ''access_token''")
        case flat: None
        then have "''access_token'' \<notin> set (map fst d)"
          by (simp add: has_key_iff del: set_map)
        then have "fst (get_airtable_token w) = Inl (ValueError
            ''Failed to get authentication token from Nango: No access_token found in Nango credentials response'')"
          using key c inner by (simp add: get_airtable_token_def got bind_exn_def del: set_map)
        then show ?thesis using c None flat msg world by simp
      next
        case flat: (Some t)
        then have "''access_token'' \<in> set (map fst d)"
          by (simp add: has_key_iff del: set_map)
        then have "fst (get_airtable_token w) = Inr t"
          using key c inner flat by (simp add: get_airtable_token_def got bind_exn_def del: set_map)
        then show ?thesis using c None flat msg world by simp
      qed
    qed
  qed
qed

text \<open>
  The payloads of the specification: the nested shape gives \<^verbatim>\<open>tok123\<close>, the flat shape
  \<^verbatim>\<open>tok456\<close>, and \<^verbatim>\<open>{"foo": "bar"}\<close> fails.
\<close>

theorem token_from_accepted_shapes_witness:
  \<open>fst (get_airtable_token (start_world nango_env
       [json_reply 200 ''OK'' ''{"credentials": {"access_token": "tok123"}}''
          (JObj [(''credentials'', JObj [(''access_token'', JStr ''tok123'')])])]))
     = Inr (JStr ''tok123'')
   \<and> fst (get_airtable_token (start_world nango_env
       [json_reply 200 ''OK'' ''{"access_token": "tok456"}''
          (JObj [(''access_token'', JStr ''tok456'')])]))
     = Inr (JStr ''tok456'')
   \<and> fst (get_airtable_token (start_world nango_env
       [json_reply 200 ''OK'' ''{"foo": "bar"}'' (JObj [(''foo'', JStr ''bar'')])]))
     = Inl (ValueError
         ''Failed to get authentication token from Nango: No access_token found in Nango credentials response'')\<close>
proof -
  let ?w1 = \<open>start_world nango_env
       [json_reply 200 ''OK'' ''{"credentials": {"access_token": "tok123"}}''
          (JObj [(''credentials'', JObj [(''access_token'', JStr ''tok123'')])])]\<close>
  let ?w2 = \<open>start_world nango_env
       [json_reply 200 ''OK'' ''{"access_token": "tok456"}''
          (JObj [(''access_token'', JStr ''tok456'')])]\<close>
  let ?w3 = \<open>start_world nango_env
       [json_reply 200 ''OK'' ''{"foo": "bar"}'' (JObj [(''foo'', JStr ''bar'')])]\<close>
  have g1: "fst (get_connection_credentials ?w1)
      = Inr (JObj [(''credentials'', JObj [(''access_token'', JStr ''tok123'')])])"
    by (simp add: get_connection_credentials_def start_world_def nango_env_def truthy_str_def
        http_send_def scripted_def json_reply_def http_error_msg_def)
  have g2: "fst (get_connection_credentials ?w2) = Inr (JObj [(''access_token'', JStr ''tok456'')])"
    by (simp add: get_connection_credentials_def start_world_def nango_env_def truthy_str_def
        http_send_def scripted_def json_reply_def http_error_msg_def)
  have g3: "fst (get_connection_credentials ?w3) = Inr (JObj [(''foo'', JStr ''bar'')])"
    by (simp add: get_connection_credentials_def start_world_def nango_env_def truthy_str_def
        http_send_def scripted_def json_reply_def http_error_msg_def)
  show ?thesis
    using token_from_accepted_shapes [OF g1] token_from_accepted_shapes [OF g2]
      token_from_accepted_shapes [OF g3]
    by simp
qed

text \<open>
  The restriction on the payload is needed: with \<^verbatim>\<open>credentials\<close> null the membership
  test raises a TypeError, the flat \<^verbatim>\<open>access_token\<close> beside it is never looked at, and the
  failure does not mention \<^verbatim>\<open>No access_token found\<close>.
\<close>

theorem token_null_credentials_counterexample:
  \<open>fst (get_airtable_token (start_world nango_env
       [json_reply 200 ''OK'' ''{"credentials": null, "access_token": "tok456"}''
          (JObj [(''credentials'', JNull), (''access_token'', JStr ''tok456'')])]))
     = Inl (ValueError
         ''Failed to get authentication token from Nango: argument of type 'NoneType' is not iterable'')
   \<and> fst (get_airtable_token (start_world nango_env
       [json_reply 200 ''OK'' ''{"credentials": null, "access_token": "tok456"}''
          (JObj [(''credentials'', JNull), (''access_token'', JStr ''tok456'')])]))
     \<noteq> Inr (JStr ''tok456'')
   \<and> \<not> sublist ''No access_token found''
         ''Failed to get authentication token from Nango: argument of type 'NoneType' is not iterable''\<close>
proof -
  have \<open>fst (get_airtable_token (start_world nango_env
       [json_reply 200 ''OK'' ''{"credentials": null, "access_token": "tok456"}''
          (JObj [(''credentials'', JNull), (''access_token'', JStr ''tok456'')])]))
     = Inl (ValueError
         ''Failed to get authentication token from Nango: argument of type 'NoneType' is not iterable'')\<close>
    by (simp add: get_airtable_token_def get_connection_credentials_def start_world_def
        nango_env_def truthy_str_def http_send_def scripted_def json_reply_def http_error_msg_def
        bind_exn_def quoted_def)
  moreover have \<open>\<not> sublist ''No access_token found''
         ''Failed to get authentication token from Nango: argument of type 'NoneType' is not iterable''\<close>
    by code_simp
  ultimately show ?thesis by simp
qed

section \<open>One broker call per request\<close>

lemma get_connection_credentials_frame:
  "broker_calls (snd (get_connection_credentials w)) = Suc (broker_calls w)
   \<and> environ (snd (get_connection_credentials w)) = environ w
   \<and> network (snd (get_connection_credentials w)) = network w"
  by (simp add: get_connection_credentials_def Let_def http_send_def
      split: http_outcome.splits option.splits sum.splits json_outcome.splits)

lemma get_airtable_token_frame:
  "broker_calls (snd (get_airtable_token w)) = Suc (broker_calls w)
   \<and> environ (snd (get_airtable_token w)) = environ w
   \<and> network (snd (get_airtable_token w)) = network w"
proof -
  have "snd (get_airtable_token w) = snd (get_connection_credentials w)"
    by (simp add: get_airtable_token_def split: prod.splits sum.splits)
  then show ?thesis by (simp only: get_connection_credentials_frame simp_thms)
qed

lemma get_headers_frame:
  "broker_calls (snd (get_headers w)) = Suc (broker_calls w)
   \<and> environ (snd (get_headers w)) = environ w
   \<and> network (snd (get_headers w)) = network w"
proof -
  have "snd (get_headers w) = snd (get_airtable_token w)"
    by (simp add: get_headers_def split: prod.splits sum.splits)
  then show ?thesis by (simp only: get_airtable_token_frame simp_thms)
qed

lemma handle_api_request_frame:
  "broker_calls (snd (handle_api_request w m u k)) = Suc (broker_calls w)
   \<and> environ (snd (handle_api_request w m u k)) = environ w
   \<and> network (snd (handle_api_request w m u k)) = network w"
proof (cases "get_headers w")
  case (Pair res w1)
  have w1: "broker_calls w1 = Suc (broker_calls w)" "environ w1 = environ w"
      "network w1 = network w"
    using get_headers_frame [of w] by (simp_all add: Pair)
  show ?thesis
  proof (cases res)
    case (Inl e)
    then show ?thesis by (simp add: handle_api_request_def Pair w1)
  next
    case (Inr hs)
    then show ?thesis
      by (simp add: handle_api_request_def Pair w1 Let_def http_send_def
          split: http_outcome.splits sum.splits json_outcome.splits)
  qed
qed

lemma credentials_sent_once:
  assumes "fst (get_connection_credentials w) = Inr c"
  shows "sent (snd (get_connection_credentials w))
     = sent w @ [\<lparr>req_method = ''GET'',
          req_url = the (environ w ''NANGO_BASE_URL'') @ ''/connection/''
                      @ the (environ w ''NANGO_CONNECTION_ID''),
          req_headers = [(''Authorization'', ''Bearer '' @ the (environ w ''NANGO_SECRET_KEY''))],
          req_params = Some [(''provider_config_key'', PStr (the (environ w ''NANGO_INTEGRATION_ID''))),
                             (''refresh_token'', PStr ''true'')],
          req_json = None\<rparr>]"
  using assms
  by (simp add: get_connection_credentials_def Let_def http_send_def
      split: if_splits http_outcome.splits option.splits sum.splits json_outcome.splits)

lemma token_sent_once:
  assumes "fst (get_airtable_token w) = Inr t"
  shows "sent (snd (get_airtable_token w))
     = sent w @ [\<lparr>req_method = ''GET'',
          req_url = the (environ w ''NANGO_BASE_URL'') @ ''/connection/''
                      @ the (environ w ''NANGO_CONNECTION_ID''),
          req_headers = [(''Authorization'', ''Bearer '' @ the (environ w ''NANGO_SECRET_KEY''))],
          req_params = Some [(''provider_config_key'', PStr (the (environ w ''NANGO_INTEGRATION_ID''))),
                             (''refresh_token'', PStr ''true'')],
          req_json = None\<rparr>]"
proof (cases "get_connection_credentials w")
  case (Pair got w')
  have same: "snd (get_airtable_token w) = snd (get_connection_credentials w)"
    by (simp add: get_airtable_token_def split: prod.splits sum.splits)
  from assms obtain c where "got = Inr c"
    by (cases got) (simp_all add: get_airtable_token_def Pair bind_exn_def)
  then have "fst (get_connection_credentials w) = Inr c" by (simp add: Pair)
  then show ?thesis unfolding same by (rule credentials_sent_once)
qed

lemma successful_request_trace:
  assumes "fst (handle_api_request w m u k) = Inr v"
  shows "\<exists>t. fst (get_airtable_token w) = Inr t
     \<and> sent (snd (handle_api_request w m u k))
       = sent w @
         [\<lparr>req_method = ''GET'',
           req_url = the (environ w ''NANGO_BASE_URL'') @ ''/connection/''
                       @ the (environ w ''NANGO_CONNECTION_ID''),
           req_headers = [(''Authorization'', ''Bearer '' @ the (environ w ''NANGO_SECRET_KEY''))],
           req_params = Some [(''provider_config_key'', PStr (the (environ w ''NANGO_INTEGRATION_ID''))),
                              (''refresh_token'', PStr ''true'')],
           req_json = None\<rparr>,
          \<lparr>req_method = m, req_url = u,
           req_headers =
             (case kw_headers k of
                Some extra \<Rightarrow> dict_update [(''Authorization'', ''Bearer '' @ py_str t),
                                            (''Content-Type'', ''application/json'')] extra
              | None \<Rightarrow> [(''Authorization'', ''Bearer '' @ py_str t),
                          (''Content-Type'', ''application/json'')]),
           req_params = kw_params k, req_json = kw_json k\<rparr>]"
proof (cases "get_airtable_token w")
  case (Pair tok w1)
  show ?thesis
  proof (cases tok)
    case (Inl e)
    with assms show ?thesis
      by (simp add: handle_api_request_def get_headers_def Pair)
  next
    case (Inr t)
    have "fst (get_airtable_token w) = Inr t" by (simp add: Pair Inr)
    from token_sent_once [OF this] have w1: "sent w1 = sent w @
         [\<lparr>req_method = ''GET'',
           req_url = the (environ w ''NANGO_BASE_URL'') @ ''/connection/''
                       @ the (environ w ''NANGO_CONNECTION_ID''),
           req_headers = [(''Authorization'', ''Bearer '' @ the (environ w ''NANGO_SECRET_KEY''))],
           req_params = Some [(''provider_config_key'', PStr (the (environ w ''NANGO_INTEGRATION_ID''))),
                              (''refresh_token'', PStr ''true'')],
           req_json = None\<rparr>]"
      by (simp add: Pair)
    have "sent (snd (handle_api_request w m u k)) = sent w1 @
          [\<lparr>req_method = m, req_url = u,
           req_headers =
             (case kw_headers k of
                Some extra \<Rightarrow> dict_update [(''Authorization'', ''Bearer '' @ py_str t),
                                            (''Content-Type'', ''application/json'')] extra
              | None \<Rightarrow> [(''Authorization'', ''Bearer '' @ py_str t),
                          (''Content-Type'', ''application/json'')]),
           req_params = kw_params k, req_json = kw_json k\<rparr>]"
      by (cases "kw_headers k")
        (simp_all add: handle_api_request_def get_headers_def Pair Inr Let_def http_send_def
          split: http_outcome.splits sum.splits json_outcome.splits)
    then show ?thesis by (simp add: Pair Inr w1)
  qed
qed

text \<open>
  Claim C9. Every run of \<^verbatim>\<open>handle_api_request\<close> enters \<^verbatim>\<open>get_connection_credentials\<close>
  exactly once, so two runs in sequence enter it twice; a run leaves the environment and
  the network as they were and keeps nothing else. A run that succeeds has sent exactly
  two requests, the broker's and then the API's, and the API request carries the token
  read from the broker's answer of this very run.
\<close>

theorem broker_called_once_per_request:
  "broker_calls (snd (handle_api_request w m u k)) = Suc (broker_calls w)
   \<and> broker_calls (snd (handle_api_request (snd (handle_api_request w m u k)) m' u' k'))
       = Suc (Suc (broker_calls w))
   \<and> environ (snd (handle_api_request w m u k)) = environ w
   \<and> network (snd (handle_api_request w m u k)) = network w
   \<and> (\<forall>v. fst (handle_api_request w m u k) = Inr v \<longrightarrow>
        (\<exists>t. fst (get_airtable_token w) = Inr t
          \<and> sent (snd (handle_api_request w m u k))
            = sent w @
              [\<lparr>req_method = ''GET'',
                req_url = the (environ w ''NANGO_BASE_URL'') @ ''/connection/''
                            @ the (environ w ''NANGO_CONNECTION_ID''),
                req_headers = [(''Authorization'',
                                ''Bearer '' @ the (environ w ''NANGO_SECRET_KEY''))],
                req_params = Some [(''provider_config_key'',
                                      PStr (the (environ w ''NANGO_INTEGRATION_ID''))),
                                   (''refresh_token'', PStr ''true'')],
                req_json = None\<rparr>,
               \<lparr>req_method = m, req_url = u,
                req_headers =
                  (case kw_headers k of
                     Some extra \<Rightarrow> dict_update [(''Authorization'', ''Bearer '' @ py_str t),
                                                 (''Content-Type'', ''application/json'')] extra
                   | None \<Rightarrow> [(''Authorization'', ''Bearer '' @ py_str t),
                               (''Content-Type'', ''application/json'')]),
                req_params = kw_params k, req_json = kw_json k\<rparr>]))"
  using successful_request_trace [of w m u k]
  by (simp only: handle_api_request_frame simp_thms) blast

text \<open>
  Two runs against a broker that hands out \<^verbatim>\<open>tokA\<close> and then \<^verbatim>\<open>tokB\<close>: both succeed, each
  asks the broker once, and the second API request carries \<^verbatim>\<open>tokB\<close>.
\<close>

theorem broker_called_once_per_request_witness:
  \<open>(let w0 = start_world nango_env
        [json_reply 200 ''OK'' ''{"credentials": {"access_token": "tokA"}}''
           (JObj [(''credentials'', JObj [(''access_token'', JStr ''tokA'')])]),
         json_reply 200 ''OK'' ''{"records": []}'' (JObj [(''records'', JList [])]),
         json_reply 200 ''OK'' ''{"credentials": {"access_token": "tokB"}}''
           (JObj [(''credentials'', JObj [(''access_token'', JStr ''tokB'')])]),
         json_reply 200 ''OK'' ''{"records": []}'' (JObj [(''records'', JList [])])];
       k = \<lparr>kw_headers = None, kw_params = None, kw_json = None\<rparr>;
       w1 = snd (handle_api_request w0 ''GET'' ''https://api.airtable.com/v0/app1/T'' k);
       w2 = snd (handle_api_request w1 ''GET'' ''https://api.airtable.com/v0/app1/T'' k)
    in fst (handle_api_request w0 ''GET'' ''https://api.airtable.com/v0/app1/T'' k)
         = Inr (JObj [(''records'', JList [])])
     \<and> fst (handle_api_request w1 ''GET'' ''https://api.airtable.com/v0/app1/T'' k)
         = Inr (JObj [(''records'', JList [])])
     \<and> broker_calls w1 = 1 \<and> broker_calls w2 = 2
     \<and> map req_url (sent w2)
         = [''https://api.nango.dev/connection/conn-1'', ''https://api.airtable.com/v0/app1/T'',
            ''https://api.nango.dev/connection/conn-1'', ''https://api.airtable.com/v0/app1/T'']
     \<and> map (\<lambda>r. map_of (req_headers r) ''Authorization'') (sent w2)
         = [Some ''Bearer s3cr3t'', Some ''Bearer tokA'', Some ''Bearer s3cr3t'',
            Some ''Bearer tokB''])\<close>
  using broker_called_once_per_request
    [of \<open>start_world nango_env
        [json_reply 200 ''OK'' ''{"credentials": {"access_token": "tokA"}}''
           (JObj [(''credentials'', JObj [(''access_token'', JStr ''tokA'')])]),
         json_reply 200 ''OK'' ''{"records": []}'' (JObj [(''records'', JList [])]),
         json_reply 200 ''OK'' ''{"credentials": {"access_token": "tokB"}}''
           (JObj [(''credentials'', JObj [(''access_token'', JStr ''tokB'')])]),
         json_reply 200 ''OK'' ''{"records": []}'' (JObj [(''records'', JList [])])]\<close>
       "''GET''" "''https://api.airtable.com/v0/app1/T''"
       "\<lparr>kw_headers = None, kw_params = None, kw_json = None\<rparr>"
       "''GET''" "''https://api.airtable.com/v0/app1/T''"
       "\<lparr>kw_headers = None, kw_params = None, kw_json = None\<rparr>"]
  by (simp add: handle_api_request_def get_headers_def get_airtable_token_def
      get_connection_credentials_def start_world_def nango_env_def truthy_str_def http_send_def
      scripted_def json_reply_def http_error_msg_def bind_exn_def py_str_def Let_def)

section \<open>The tools send what their encoders build\<close>

lemma successful_request_last:
  assumes "fst (handle_api_request w m u k) = Inr v"
  shows "req_method (last (sent (snd (handle_api_request w m u k)))) = m
       \<and> req_url (last (sent (snd (handle_api_request w m u k)))) = u
       \<and> req_params (last (sent (snd (handle_api_request w m u k)))) = kw_params k
       \<and> req_json (last (sent (snd (handle_api_request w m u k)))) = kw_json k"
proof -
  from successful_request_trace [OF assms] obtain t where
    "sent (snd (handle_api_request w m u k))
       = sent w @
         [\<lparr>req_method = ''GET'',
           req_url = the (environ w ''NANGO_BASE_URL'') @ ''/connection/''
                       @ the (environ w ''NANGO_CONNECTION_ID''),
           req_headers = [(''Authorization'', ''Bearer '' @ the (environ w ''NANGO_SECRET_KEY''))],
           req_params = Some [(''provider_config_key'', PStr (the (environ w ''NANGO_INTEGRATION_ID''))),
                              (''refresh_token'', PStr ''true'')],
           req_json = None\<rparr>,
          \<lparr>req_method = m, req_url = u,
           req_headers =
             (case kw_headers k of
                Some extra \<Rightarrow> dict_update [(''Authorization'', ''Bearer '' @ py_str t),
                                            (''Content-Type'', ''application/json'')] extra
              | None \<Rightarrow> [(''Authorization'', ''Bearer '' @ py_str t),
                          (''Content-Type'', ''application/json'')]),
           req_params = kw_params k, req_json = kw_json k\<rparr>]"
    by blast
  then show ?thesis by simp
qed

lemma list_records_sends_params:
  assumes "fst (list_records w b t fs fbf mr ps so v cf tz ul) = Inr x"
  shows "req_params (last (sent (snd (list_records w b t fs fbf mr ps so v cf tz ul))))
     = Some (list_records_params fs fbf mr ps so v cf tz ul)"
  using assms successful_request_last [of w "''GET''" _ _ x]
  unfolding list_records_def by fastforce

lemma get_users_by_id_or_email_sends_params:
  assumes "fst (get_users_by_id_or_email w e ids ems inc) = Inr x"
  shows "req_params (last (sent (snd (get_users_by_id_or_email w e ids ems inc))))
     = Some (get_users_by_id_or_email_params ids ems inc)"
  using assms successful_request_last [of w "''GET''" _ _ x]
  unfolding get_users_by_id_or_email_def by fastforce

lemma get_record_sends_params:
  assumes "fst (get_record w b t r cf rf) = Inr x"
  shows "req_params (last (sent (snd (get_record w b t r cf rf))))
     = Some (get_record_params cf rf)"
  using assms successful_request_last [of w "''GET''" _ _ x]
  unfolding get_record_def by fastforce

lemma create_records_sends_data:
  assumes "fst (create_records w b t rs fs tc rf) = Inr x"
  shows "req_json (last (sent (snd (create_records w b t rs fs tc rf))))
     = Some (JObj (create_records_data rs fs tc rf))"
  using assms successful_request_last [of w "''POST''" _ _ x]
  unfolding create_records_def by fastforce

lemma update_record_sends_data:
  assumes "fst (update_record w b t r fs tc rf) = Inr x"
  shows "req_json (last (sent (snd (update_record w b t r fs tc rf))))
     = Some (JObj (update_record_data fs tc rf))"
  using assms successful_request_last [of w "''PATCH''" _ _ x]
  unfolding update_record_def by fastforce

lemma update_multiple_records_sends_data:
  assumes "fst (update_multiple_records w b t rs tc rf pu fm) = Inr x"
  shows "req_json (last (sent (snd (update_multiple_records w b t rs tc rf pu fm))))
     = Some (JObj (update_multiple_records_data rs tc rf pu fm))"
  using assms successful_request_last [of w "''PATCH''" _ _ x]
  unfolding update_multiple_records_def by fastforce

lemma remove_user_from_enterprise_sends_data:
  assumes "fst (remove_user_from_enterprise w e u ro rd dr) = Inr x"
  shows "req_json (last (sent (snd (remove_user_from_enterprise w e u ro rd dr))))
     = Some (JObj (remove_user_from_enterprise_data ro rd dr))"
  using assms successful_request_last [of w "''POST''" _ _ x]
  unfolding remove_user_from_enterprise_def by fastforce

section \<open>Classification of responses\<close>

lemma handle_api_request_response:
  assumes h: "fst (get_headers w) = Inr hs"
    and s: "fst (http_send (snd (get_headers w))
              \<lparr>req_method = m, req_url = u,
               req_headers = (case kw_headers k of Some extra \<Rightarrow> dict_update hs extra
                              | None \<Rightarrow> hs),
               req_params = kw_params k, req_json = kw_json k\<rparr>) = Response r"
  shows "fst (handle_api_request w m u k) =
     (if http_error_msg r \<noteq> None
      then Inl (ValueError (''HTTP '' @ str_int (status_code r) @ '': '' @ reason r @ '' - '' @
             (case bind_exn (case resp_json r of Parsed error_body \<Rightarrow> Inr error_body
                             | JSONDecodeError e \<Rightarrow> Inl (OtherError e)
                             | OtherJsonError e \<Rightarrow> Inl (OtherError e))
                     (\<lambda>error_body. bind_exn (py_get error_body ''error'' (JObj []))
                        (\<lambda>err. py_get err ''message'' (JStr (py_str error_body))))
              of Inr message \<Rightarrow> py_str message | Inl x \<Rightarrow> resp_text r)))
      else if content r = [] then Inr (JObj [(''success'', JBool True)])
      else (case resp_json r of Parsed v \<Rightarrow> Inr v
            | JSONDecodeError e \<Rightarrow> Inr (JObj [(''raw_response'', JStr (resp_text r))])
            | OtherJsonError e \<Rightarrow> Inl (ValueError (''Unexpected error: '' @ e))))"
proof -
  obtain w1 where gh: "get_headers w = (Inr hs, w1)"
    using h by (cases "get_headers w") simp
  let ?req = "\<lparr>req_method = m, req_url = u,
               req_headers = (case kw_headers k of Some extra \<Rightarrow> dict_update hs extra
                              | None \<Rightarrow> hs),
               req_params = kw_params k, req_json = kw_json k\<rparr>"
  obtain w2 where hs: "http_send w1 ?req = (Response r, w2)"
    using s by (cases "http_send w1 ?req") (simp add: gh)
  show ?thesis
    by (simp add: handle_api_request_def gh hs Let_def split: sum.splits json_outcome.splits)
qed

text \<open>
  Claim C3, with the outcome the parser adds. When the headers were obtained and the API
  answers with a status from 200 to 299, \<^verbatim>\<open>handle_api_request\<close> returns
  \<^verbatim>\<open>{"success": True}\<close> for an empty body, the parsed value as it is for a body that parses
  as JSON, and \<^verbatim>\<open>{"raw_response": text}\<close> for a non-empty body on which \<^verbatim>\<open>json()\<close> raises a
  JSONDecodeError. When \<^verbatim>\<open>json()\<close> raises anything else on a non-empty body, the call
  fails with \<^verbatim>\<open>Unexpected error: \<close> and the exception's text.
\<close>

theorem success_outcomes:
  assumes "fst (get_headers w) = Inr hs"
    and "fst (http_send (snd (get_headers w))
              \<lparr>req_method = m, req_url = u,
               req_headers = (case kw_headers k of Some extra \<Rightarrow> dict_update hs extra
                              | None \<Rightarrow> hs),
               req_params = kw_params k, req_json = kw_json k\<rparr>) = Response r"
    and "200 \<le> status_code r" and "status_code r < 300"
  shows "(content r = [] \<longrightarrow>
            fst (handle_api_request w m u k) = Inr (JObj [(''success'', JBool True)]))
       \<and> (\<forall>v. content r \<noteq> [] \<and> resp_json r = Parsed v \<longrightarrow>
            fst (handle_api_request w m u k) = Inr v)
       \<and> (\<forall>e. content r \<noteq> [] \<and> resp_json r = JSONDecodeError e \<longrightarrow>
            fst (handle_api_request w m u k)
              = Inr (JObj [(''raw_response'', JStr (resp_text r))]))
       \<and> (\<forall>e. content r \<noteq> [] \<and> resp_json r = OtherJsonError e \<longrightarrow>
            fst (handle_api_request w m u k)
              = Inl (ValueError (''Unexpected error: '' @ e)))"
proof -
  have ok: "http_error_msg r = None"
    using assms(3,4) by (simp add: http_error_msg_def)
  show ?thesis
    unfolding handle_api_request_response [OF assms(1,2)] using ok by simp
qed

text \<open>
  A 200 response with the body \<^verbatim>\<open>plain text\<close>, one with an empty body and one whose
  body is a JSON list.
\<close>

theorem success_outcomes_witness:
  \<open>fst (handle_api_request (start_world nango_env
       [json_reply 200 ''OK'' ''{"access_token": "tok456"}''
          (JObj [(''access_token'', JStr ''tok456'')]),
        Response \<lparr>status_code = 200, reason = ''OK'', resp_url = ''https://example.invalid/'',
                  content = ''plain text'', resp_text = ''plain text'',
                  resp_json = JSONDecodeError ''Expecting value: line 1 column 1 (char 0)''\<rparr>])
       ''DELETE'' ''https://api.airtable.com/v0/app1/T/rec1''
       \<lparr>kw_headers = None, kw_params = None, kw_json = None\<rparr>)
     = Inr (JObj [(''raw_response'', JStr ''plain text'')])
   \<and> fst (handle_api_request (start_world nango_env
       [json_reply 200 ''OK'' ''{"access_token": "tok456"}''
          (JObj [(''access_token'', JStr ''tok456'')]),
        Response \<lparr>status_code = 200, reason = ''OK'', resp_url = ''https://example.invalid/'',
                  content = [], resp_text = [],
                  resp_json = JSONDecodeError ''Expecting value: line 1 column 1 (char 0)''\<rparr>])
       ''DELETE'' ''https://api.airtable.com/v0/app1/T/rec1''
       \<lparr>kw_headers = None, kw_params = None, kw_json = None\<rparr>)
     = Inr (JObj [(''success'', JBool True)])
   \<and> fst (handle_api_request (start_world nango_env
       [json_reply 200 ''OK'' ''{"access_token": "tok456"}''
          (JObj [(''access_token'', JStr ''tok456'')]),
        json_reply 200 ''OK'' ''[1, "a"]'' (JList [JInt 1, JStr ''a''])])
       ''GET'' ''https://api.airtable.com/v0/app1/T''
       \<lparr>kw_headers = None, kw_params = None, kw_json = None\<rparr>)
     = Inr (JList [JInt 1, JStr ''a''])\<close>
proof -
  let ?w = \<open>start_world nango_env
       [json_reply 200 ''OK'' ''{"access_token": "tok456"}''
          (JObj [(''access_token'', JStr ''tok456'')]),
        Response \<lparr>status_code = 200, reason = ''OK'', resp_url = ''https://example.invalid/'',
                  content = ''plain text'', resp_text = ''plain text'',
                  resp_json = JSONDecodeError ''Expecting value: line 1 column 1 (char 0)''\<rparr>]\<close>
  let ?r = \<open>\<lparr>status_code = 200, reason = ''OK'', resp_url = ''https://example.invalid/'',
                  content = ''plain text'', resp_text = ''plain text'',
                  resp_json = JSONDecodeError ''Expecting value: line 1 column 1 (char 0)''\<rparr>\<close>
  let ?k = "\<lparr>kw_headers = None, kw_params = None, kw_json = None\<rparr>"
  let ?hs = "[(''Authorization'', ''Bearer tok456''), (''Content-Type'', ''application/json'')]"
  have h: "fst (get_headers ?w) = Inr ?hs"
    by (simp add: run_defs)
  have s: "fst (http_send (snd (get_headers ?w))
              \<lparr>req_method = ''DELETE'', req_url = ''https://api.airtable.com/v0/app1/T/rec1'',
               req_headers = (case kw_headers ?k of Some extra \<Rightarrow> dict_update ?hs extra
                              | None \<Rightarrow> ?hs),
               req_params = kw_params ?k, req_json = kw_json ?k\<rparr>) = Response ?r"
    by (simp add: run_defs)
  have a: "200 \<le> status_code ?r" and b: "status_code ?r < 300" by simp_all
  from success_outcomes [OF h s a b]
  have plain: "fst (handle_api_request ?w ''DELETE'' ''https://api.airtable.com/v0/app1/T/rec1'' ?k)
      = Inr (JObj [(''raw_response'', JStr ''plain text'')])"
    by simp
  show ?thesis
    by (rule conjI [OF plain]) (simp add: run_defs)
qed

text \<open>
  The three success outcomes do not cover every 2xx response: a 200 whose body is an
  integer literal of 4301 digits makes \<^verbatim>\<open>json()\<close> raise a plain ValueError, which line 99
  does not catch, and the call fails.
\<close>

theorem success_outcomes_counterexample:
  \<open>fst (handle_api_request (start_world nango_env
       [json_reply 200 ''OK'' ''{"access_token": "tok456"}''
          (JObj [(''access_token'', JStr ''tok456'')]),
        Response \<lparr>status_code = 200, reason = ''OK'', resp_url = ''https://example.invalid/'',
                  content = replicate 4301 (CHR ''1''), resp_text = replicate 4301 (CHR ''1''),
                  resp_json = OtherJsonError
                    ''Exceeds the limit (4300 digits) for integer string conversion: value has 4301 digits; use sys.set_int_max_str_digits() to increase the limit''\<rparr>])
       ''GET'' ''https://api.airtable.com/v0/app1/T''
       \<lparr>kw_headers = None, kw_params = None, kw_json = None\<rparr>)
     = Inl (ValueError
         ''Unexpected error: Exceeds the limit (4300 digits) for integer string conversion: value has 4301 digits; use sys.set_int_max_str_digits() to increase the limit'')\<close>
  by (simp add: run_defs)

text \<open>
  Claim C2, for the statuses \<^verbatim>\<open>raise_for_status\<close> rejects (400 to 599).
  \<^verbatim>\<open>handle_api_request\<close> fails with \<^verbatim>\<open>HTTP {status}: {reason} - {detail}\<close>. The detail is
  \<^verbatim>\<open>str\<close> of \<^verbatim>\<open>error.message\<close> when the body is a JSON object whose \<^verbatim>\<open>error\<close> member is an
  object with a \<^verbatim>\<open>message\<close>; \<^verbatim>\<open>str\<close> of the parsed body when the body is a JSON object with
  no \<^verbatim>\<open>error\<close> member or with one that is an object without \<^verbatim>\<open>message\<close>; and the raw
  response text in every other case: the \<^verbatim>\<open>error\<close> member is not an object, the body is
  JSON but not an object, or \<^verbatim>\<open>json()\<close> raises (a JSONDecodeError or anything else).
\<close>

theorem http_error_message:
  assumes "fst (get_headers w) = Inr hs"
    and "fst (http_send (snd (get_headers w))
              \<lparr>req_method = m, req_url = u,
               req_headers = (case kw_headers k of Some extra \<Rightarrow> dict_update hs extra
                              | None \<Rightarrow> hs),
               req_params = kw_params k, req_json = kw_json k\<rparr>) = Response r"
    and "400 \<le> status_code r" and "status_code r < 600"
  shows "\<exists>detail.
       fst (handle_api_request w m u k)
         = Inl (ValueError (''HTTP '' @ str_int (status_code r) @ '': '' @ reason r
                             @ '' - '' @ detail))
     \<and> (\<forall>d e msg. resp_json r = Parsed (JObj d) \<and> map_of d ''error'' = Some (JObj e)
            \<and> map_of e ''message'' = Some msg \<longrightarrow> detail = py_str msg)
     \<and> (\<forall>d. resp_json r = Parsed (JObj d) \<and> map_of d ''error'' = None
            \<longrightarrow> detail = py_str (JObj d))
     \<and> (\<forall>d e. resp_json r = Parsed (JObj d) \<and> map_of d ''error'' = Some (JObj e)
            \<and> map_of e ''message'' = None \<longrightarrow> detail = py_str (JObj d))
     \<and> (\<forall>d x. resp_json r = Parsed (JObj d) \<and> map_of d ''error'' = Some x
            \<and> (\<forall>e. x \<noteq> JObj e) \<longrightarrow> detail = resp_text r)
     \<and> (\<forall>v. resp_json r = Parsed v \<and> (\<forall>d. v \<noteq> JObj d) \<longrightarrow> detail = resp_text r)
     \<and> (\<forall>e. resp_json r = JSONDecodeError e \<longrightarrow> detail = resp_text r)
     \<and> (\<forall>e. resp_json r = OtherJsonError e \<longrightarrow> detail = resp_text r)"
proof -
  let ?detail = "case bind_exn (case resp_json r of Parsed error_body \<Rightarrow> Inr error_body
                             | JSONDecodeError e \<Rightarrow> Inl (OtherError e)
                             | OtherJsonError e \<Rightarrow> Inl (OtherError e))
                     (\<lambda>error_body. bind_exn (py_get error_body ''error'' (JObj []))
                        (\<lambda>err. py_get err ''message'' (JStr (py_str error_body))))
              of Inr message \<Rightarrow> py_str message | Inl x \<Rightarrow> resp_text r"
  have err: "http_error_msg r \<noteq> None"
    using assms(3,4) by (simp add: http_error_msg_def)
  have res: "fst (handle_api_request w m u k)
         = Inl (ValueError (''HTTP '' @ str_int (status_code r) @ '': '' @ reason r
                             @ '' - '' @ ?detail))"
    unfolding handle_api_request_response [OF assms(1,2)] using err by simp
  have c1: "\<forall>d e msg. resp_json r = Parsed (JObj d) \<and> map_of d ''error'' = Some (JObj e)
            \<and> map_of e ''message'' = Some msg \<longrightarrow> ?detail = py_str msg"
    by (simp add: bind_exn_def)
  have c2: "\<forall>d. resp_json r = Parsed (JObj d) \<and> map_of d ''error'' = None
            \<longrightarrow> ?detail = py_str (JObj d)"
    by (simp add: bind_exn_def py_str_def)
  have c3: "\<forall>d e. resp_json r = Parsed (JObj d) \<and> map_of d ''error'' = Some (JObj e)
            \<and> map_of e ''message'' = None \<longrightarrow> ?detail = py_str (JObj d)"
    by (simp add: bind_exn_def py_str_def)
  have c4: "\<forall>d x. resp_json r = Parsed (JObj d) \<and> map_of d ''error'' = Some x
            \<and> (\<forall>e. x \<noteq> JObj e) \<longrightarrow> ?detail = resp_text r"
  proof (intro allI impI)
    fix d x assume a: "resp_json r = Parsed (JObj d) \<and> map_of d ''error'' = Some x
            \<and> (\<forall>e. x \<noteq> JObj e)"
    then show "?detail = resp_text r"
      by (cases x) (simp_all add: bind_exn_def)
  qed
  have c5: "\<forall>v. resp_json r = Parsed v \<and> (\<forall>d. v \<noteq> JObj d) \<longrightarrow> ?detail = resp_text r"
  proof (intro allI impI)
    fix v assume a: "resp_json r = Parsed v \<and> (\<forall>d. v \<noteq> JObj d)"
    then show "?detail = resp_text r"
      by (cases v) (simp_all add: bind_exn_def)
  qed
  have c6: "\<forall>e. resp_json r = JSONDecodeError e \<longrightarrow> ?detail = resp_text r"
    by (simp add: bind_exn_def)
  have c7: "\<forall>e. resp_json r = OtherJsonError e \<longrightarrow> ?detail = resp_text r"
    by (simp add: bind_exn_def)
  from res c1 c2 c3 c4 c5 c6 c7 show ?thesis by (intro exI [of _ ?detail] conjI)
qed

text \<open>
  Status 422 with the body \<^verbatim>\<open>{"error": {"message": "Invalid field"}}\<close>.
\<close>

theorem http_error_message_witness:
  \<open>fst (handle_api_request (start_world nango_env
       [json_reply 200 ''OK'' ''{"access_token": "tok456"}''
          (JObj [(''access_token'', JStr ''tok456'')]),
        json_reply 422 ''Unprocessable Entity'' ''{"error": {"message": "Invalid field"}}''
          (JObj [(''error'', JObj [(''message'', JStr ''Invalid field'')])])])
       ''POST'' ''https://api.airtable.com/v0/app1/T''
       \<lparr>kw_headers = None, kw_params = None, kw_json = Some (JObj [])\<rparr>)
     = Inl (ValueError ''HTTP 422: Unprocessable Entity - Invalid field'')\<close>
proof -
  let ?w = \<open>start_world nango_env
       [json_reply 200 ''OK'' ''{"access_token": "tok456"}''
          (JObj [(''access_token'', JStr ''tok456'')]),
        json_reply 422 ''Unprocessable Entity'' ''{"error": {"message": "Invalid field"}}''
          (JObj [(''error'', JObj [(''message'', JStr ''Invalid field'')])])]\<close>
  let ?r = \<open>\<lparr>status_code = 422, reason = ''Unprocessable Entity'',
             resp_url = ''https://example.invalid/'',
             content = ''{"error": {"message": "Invalid field"}}'',
             resp_text = ''{"error": {"message": "Invalid field"}}'',
             resp_json = Parsed (JObj [(''error'', JObj [(''message'', JStr ''Invalid field'')])])\<rparr>\<close>
  let ?k = "\<lparr>kw_headers = None, kw_params = None, kw_json = Some (JObj [])\<rparr>"
  let ?hs = "[(''Authorization'', ''Bearer tok456''), (''Content-Type'', ''application/json'')]"
  have h: "fst (get_headers ?w) = Inr ?hs"
    by (simp add: run_defs)
  have s: "fst (http_send (snd (get_headers ?w))
              \<lparr>req_method = ''POST'', req_url = ''https://api.airtable.com/v0/app1/T'',
               req_headers = (case kw_headers ?k of Some extra \<Rightarrow> dict_update ?hs extra
                              | None \<Rightarrow> ?hs),
               req_params = kw_params ?k, req_json = kw_json ?k\<rparr>) = Response ?r"
    by (simp add: run_defs)
  have a: "400 \<le> status_code ?r" and b: "status_code ?r < 600" by simp_all
  from http_error_message [OF h s a b] show ?thesis
    by (auto simp add: str_int_def str_nat.simps py_str_def)
qed

text \<open>
  Neither bound can be dropped. A 304 response is not a 2xx response, yet
  \<^verbatim>\<open>raise_for_status\<close> lets it pass and the empty body gives the success marker. And for
  a 404 whose body is \<^verbatim>\<open>{"error":"NOT_FOUND"}\<close> the path \<^verbatim>\<open>error.message\<close> is absent, yet the
  detail is the raw text, not \<^verbatim>\<open>str\<close> of the parsed body.
\<close>

theorem http_error_message_counterexample:
  \<open>fst (handle_api_request (start_world nango_env
       [json_reply 200 ''OK'' ''{"access_token": "tok456"}''
          (JObj [(''access_token'', JStr ''tok456'')]),
        Response \<lparr>status_code = 304, reason = ''Not Modified'',
                  resp_url = ''https://example.invalid/'', content = [], resp_text = [],
                  resp_json = JSONDecodeError ''Expecting value: line 1 column 1 (char 0)''\<rparr>])
       ''GET'' ''https://api.airtable.com/v0/app1/T''
       \<lparr>kw_headers = None, kw_params = None, kw_json = None\<rparr>)
     = Inr (JObj [(''success'', JBool True)])
   \<and> fst (handle_api_request (start_world nango_env
       [json_reply 200 ''OK'' ''{"access_token": "tok456"}''
          (JObj [(''access_token'', JStr ''tok456'')]),
        json_reply 404 ''Not Found'' ''{"error":"NOT_FOUND"}''
          (JObj [(''error'', JStr ''NOT_FOUND'')])])
       ''GET'' ''https://api.airtable.com/v0/app1/T''
       \<lparr>kw_headers = None, kw_params = None, kw_json = None\<rparr>)
     = Inl (ValueError ''HTTP 404: Not Found - {"error":"NOT_FOUND"}'')
   \<and> py_str (JObj [(''error'', JStr ''NOT_FOUND'')]) = ''{'error': 'NOT_FOUND'}''\<close>
  by (simp add: run_defs str_int_def str_nat.simps repr_str_def repr_char_def printable_def)

end
